theory Spec2Isabelle
  imports Complex_Main
begin

section \<open>Numbers, vectors and poses\<close>

text \<open>
  The conversion layer of \<^verbatim>\<open>mplib/sapien_utils/conversion.py\<close> computes with IEEE doubles
  inside numpy and the planning library's \<^verbatim>\<open>Pose\<close> class.  The embedding idealises these
  numbers as mathematical reals: every structural fact below (which constructor is
  chosen, which fields are copied, which pose product is stored) is independent of
  the number representation, rounding is not modelled.
\<close>

type_synonym vec3 = "real \<times> real \<times> real"

text \<open>Quaternions are stored scalar first, \<open>(w, x, y, z)\<close>, as \<^verbatim>\<open>Pose.q\<close> and
  \<^verbatim>\<open>transforms3d\<close> do.\<close>

type_synonym quat = "real \<times> real \<times> real \<times> real"

record Pose =
  pose_p :: vec3
  pose_q :: quat

definition vadd :: "vec3 \<Rightarrow> vec3 \<Rightarrow> vec3" where
  "vadd a b = (case a of (a1, a2, a3) \<Rightarrow> case b of (b1, b2, b3) \<Rightarrow> (a1 + b1, a2 + b2, a3 + b3))"

definition vneg :: "vec3 \<Rightarrow> vec3" where
  "vneg a = (case a of (a1, a2, a3) \<Rightarrow> (- a1, - a2, - a3))"

text \<open>\<^verbatim>\<open>n.dot(p)\<close> of numpy on two vectors of length three.\<close>

definition dot :: "vec3 \<Rightarrow> vec3 \<Rightarrow> real" where
  "dot a b = (case a of (a1, a2, a3) \<Rightarrow> case b of (b1, b2, b3) \<Rightarrow> a1 * b1 + a2 * b2 + a3 * b3)"

text \<open>The Hamilton product of two quaternions.\<close>

definition qmul :: "quat \<Rightarrow> quat \<Rightarrow> quat" where
  "qmul a b = (case a of (w1, x1, y1, z1) \<Rightarrow> case b of (w2, x2, y2, z2) \<Rightarrow>
     (w1 * w2 - x1 * x2 - y1 * y2 - z1 * z2,
      w1 * x2 + x1 * w2 + y1 * z2 - z1 * y2,
      w1 * y2 - x1 * z2 + y1 * w2 + z1 * x2,
      w1 * z2 + x1 * y2 - y1 * x2 + z1 * w2))"

definition qconj :: "quat \<Rightarrow> quat" where
  "qconj a = (case a of (w, x, y, z) \<Rightarrow> (w, - x, - y, - z))"

text \<open>The rotation matrix of a quaternion, as its three rows.\<close>

definition rotation_rows :: "quat \<Rightarrow> vec3 \<times> vec3 \<times> vec3" where
  "rotation_rows a = (case a of (w, x, y, z) \<Rightarrow>
     ((1 - 2 * (y * y + z * z), 2 * (x * y - w * z), 2 * (x * z + w * y)),
      (2 * (x * y + w * z), 1 - 2 * (x * x + z * z), 2 * (y * z - w * x)),
      (2 * (x * z - w * y), 2 * (y * z + w * x), 1 - 2 * (x * x + y * y))))"

definition rotate :: "quat \<Rightarrow> vec3 \<Rightarrow> vec3" where
  "rotate a v = (case rotation_rows a of (r0, r1, r2) \<Rightarrow> (dot r0 v, dot r1 v, dot r2 v))"

definition unit_quat :: "quat \<Rightarrow> bool" where
  "unit_quat a = (case a of (w, x, y, z) \<Rightarrow> w * w + x * x + y * y + z * z = 1)"

text \<open>
  Modelled from the spec: the planning library's \<^verbatim>\<open>Pose\<close> class (a compiled extension
  of this repository, not under \<^verbatim>\<open>src/\<close>).  The spec speaks of poses that are
  multiplied, inverted, reset to identity and turned into a transformation matrix; the
  definitions below are the rigid transformations these words denote: a pose
  \<open>(p, q)\<close> maps a point \<open>v\<close> to \<open>rotate q v + p\<close>, the product composes two
  poses, \<^verbatim>\<open>Pose()\<close> is the identity, \<^verbatim>\<open>Pose(q=...)\<close> a pure rotation.  Quaternions
  of poses are unit quaternions, on which the constructor's normalisation is the
  identity.
\<close>

definition Pose_identity :: Pose where
  "Pose_identity = \<lparr>pose_p = (0, 0, 0), pose_q = (1, 0, 0, 0)\<rparr>"

definition Pose_of_q :: "quat \<Rightarrow> Pose" where
  "Pose_of_q a = \<lparr>pose_p = (0, 0, 0), pose_q = a\<rparr>"

definition pose_mul :: "Pose \<Rightarrow> Pose \<Rightarrow> Pose" where
  "pose_mul a b = \<lparr>pose_p = vadd (rotate (pose_q a) (pose_p b)) (pose_p a),
                   pose_q = qmul (pose_q a) (pose_q b)\<rparr>"

definition pose_inv :: "Pose \<Rightarrow> Pose" where
  "pose_inv a = \<lparr>pose_p = vneg (rotate (qconj (pose_q a)) (pose_p a)),
                 pose_q = qconj (pose_q a)\<rparr>"

definition to_transformation_matrix :: "Pose \<Rightarrow> real list list" where
  "to_transformation_matrix a =
     (case rotation_rows (pose_q a) of ((r00, r01, r02), (r10, r11, r12), (r20, r21, r22)) \<Rightarrow>
      case pose_p a of (px, py, pz) \<Rightarrow>
        [[r00, r01, r02, px],
         [r10, r11, r12, py],
         [r20, r21, r22, pz],
         [0, 0, 0, 1]])"

text \<open>The numpy slice \<^verbatim>\<open>M[:3, j]\<close>: column \<open>j\<close> of the first three rows.\<close>

definition column3 :: "real list list \<Rightarrow> nat \<Rightarrow> vec3" where
  "column3 M j = (M ! 0 ! j, M ! 1 ! j, M ! 2 ! j)"

text \<open>The first and the third column of a pose's rotation: its local x-axis and its
  local z-axis, in the frame the pose is expressed in.\<close>

definition x_axis :: "Pose \<Rightarrow> vec3" where
  "x_axis a = column3 (to_transformation_matrix a) 0"

definition z_axis :: "Pose \<Rightarrow> vec3" where
  "z_axis a = column3 (to_transformation_matrix a) 2"

definition vscale :: "real \<Rightarrow> vec3 \<Rightarrow> vec3" where
  "vscale k v = (case v of (v1, v2, v3) \<Rightarrow> (k * v1, k * v2, k * v3))"

text \<open>
  \<^verbatim>\<open>transforms3d.euler.euler2quat(ai, aj, ak)\<close> with its default axes \<^verbatim>\<open>'sxyz'\<close>
  (first axis x, no parity, no repetition, static frame): the library halves the
  three angles and combines their sines and cosines as below.
\<close>

definition euler2quat :: "real \<Rightarrow> real \<Rightarrow> real \<Rightarrow> quat" where
  "euler2quat ai aj ak =
     (let ci = cos (ai / 2); si = sin (ai / 2);
          cj = cos (aj / 2); sj = sin (aj / 2);
          ck = cos (ak / 2); sk = sin (ak / 2);
          cc = ci * ck; cs = ci * sk; sc = si * ck; ss = si * sk
      in (cj * cc + sj * ss, cj * sc - sj * cs, cj * ss + sj * cc, cj * cs - sj * sc))"

section \<open>Errors\<close>

text \<open>The exceptions the module raises; the payload of a \<open>RuntimeError\<close> and of a
  \<open>Warning\<close> is the declared name of the simulation object the message is about.\<close>

datatype py_error =
    NotImplementedError
  | RuntimeError string
  | TypeError
  | AssertionError
  | AttributeError

datatype py_warning = UserWarning string

section \<open>Simulation side: entities, components, collision shapes\<close>

type_synonym triangle = "nat \<times> nat \<times> nat"

text \<open>The collision shapes of the simulation engine.  \<open>PhysxCollisionShapeOther\<close> stands
  for an object of any class the conversion does not know.\<close>

datatype PhysxCollisionShape =
    PhysxCollisionShapeBox (local_pose: Pose) (half_size: vec3)
  | PhysxCollisionShapeCapsule (local_pose: Pose) (radius: real) (half_length: real)
  | PhysxCollisionShapeConvexMesh (local_pose: Pose) (vertices: "vec3 list") (scale: vec3)
      (triangles: "triangle list")
  | PhysxCollisionShapeCylinder (local_pose: Pose) (radius: real) (half_length: real)
  | PhysxCollisionShapePlane (local_pose: Pose)
  | PhysxCollisionShapeSphere (local_pose: Pose) (radius: real)
  | PhysxCollisionShapeTriangleMesh (local_pose: Pose) (vertices: "vec3 list")
      (triangles: "triangle list")
  | PhysxCollisionShapeOther (local_pose: Pose)

text \<open>
  An entity with its attributes, and a rigid-body component with its own.
  \<open>find_component_by_type\<close> is the result of
  \<^verbatim>\<open>entity.find_component_by_type(PhysxRigidBaseComponent)\<close>, \<open>entity\<close> is
  \<^verbatim>\<open>comp.entity\<close>, and \<open>is_link\<close> is
  \<^verbatim>\<open>isinstance(comp, PhysxArticulationLinkComponent)\<close>.
\<close>

datatype Entity =
    Entity (ent_name: string) (per_scene_id: int) (ent_pose: Pose)
      (find_component_by_type: "PhysxRigidBaseComponent option")
and PhysxRigidBaseComponent =
    PhysxRigidBaseComponent (comp_name: string) (is_link: bool)
      (collision_shapes: "PhysxCollisionShape list") (entity: Entity)

record PhysxArticulation =
  art_name :: string
  root :: PhysxRigidBaseComponent
  root_pose :: Pose
  qpos :: "real list"

text \<open>What a caller can pass where the module expects
  \<^verbatim>\<open>Union[PhysxArticulation, Entity]\<close>; \<open>OtherObject\<close> is an object of any other class,
  with its \<^verbatim>\<open>name\<close> attribute if it has one.\<close>

datatype sapien_object =
    ArticulationObj PhysxArticulation
  | EntityObj Entity
  | OtherObject "string option"

section \<open>Identity resolution\<close>

text \<open>Python's \<^verbatim>\<open>str\<close> of an integer, as an f-string interpolates it: the decimal
  digits, after a minus sign for a negative number.\<close>

definition digit_char :: "nat \<Rightarrow> char" where
  "digit_char d = char_of (48 + d)"

fun str_nat :: "nat \<Rightarrow> string" where
  "str_nat n = (if n < 10 then [digit_char n] else str_nat (n div 10) @ [digit_char (n mod 10)])"

declare str_nat.simps [simp del]

definition str_int :: "int \<Rightarrow> string" where
  "str_int i = (if i < 0 then CHR ''-'' # str_nat (nat (- i)) else str_nat (nat i))"

definition convert_object_name :: "sapien_object \<Rightarrow> py_error + string" where
  "convert_object_name obj =
     (case obj of
        ArticulationObj a \<Rightarrow> Inr (art_name a @ ''_'' @ str_int (per_scene_id (entity (root a))))
      | EntityObj e \<Rightarrow> Inr (ent_name e @ ''_'' @ str_int (per_scene_id e))
      | OtherObject _ \<Rightarrow> Inl NotImplementedError)"

text \<open>The unique name of an object that has one: the string \<open>convert_object_name\<close>
  returns.\<close>

definition unique_name :: "sapien_object \<Rightarrow> string" where
  "unique_name obj = (case convert_object_name obj of Inl _ \<Rightarrow> [] | Inr nm \<Rightarrow> nm)"

text \<open>The per-scene id the name is derived from: the root link entity's for an
  articulation, its own for an entity.\<close>

definition scene_id :: "sapien_object \<Rightarrow> int option" where
  "scene_id obj =
     (case obj of
        ArticulationObj a \<Rightarrow> Some (per_scene_id (entity (root a)))
      | EntityObj e \<Rightarrow> Some (per_scene_id e)
      | OtherObject _ \<Rightarrow> None)"

section \<open>Planning side: collision geometry and collision entries\<close>

text \<open>The build state of a bounding-volume hierarchy: \<^verbatim>\<open>begin_model\<close>,
  \<^verbatim>\<open>add_sub_model\<close>, \<^verbatim>\<open>end_model\<close>.\<close>

datatype bvh_state = BVH_EMPTY | BVH_BEGUN | BVH_PROCESSED

datatype CollisionGeometry =
    Box vec3
  | Capsule real real
  | Convex "vec3 list" "triangle list"
  | Cylinder real real
  | Halfspace vec3 real
  | Sphere real
  | BVHModel bvh_state "(vec3 list \<times> triangle list) list"

definition begin_model :: "CollisionGeometry \<Rightarrow> CollisionGeometry" where
  "begin_model g = (case g of BVHModel _ subs \<Rightarrow> BVHModel BVH_BEGUN subs | _ \<Rightarrow> g)"

definition add_sub_model :: "vec3 list \<Rightarrow> triangle list \<Rightarrow> CollisionGeometry \<Rightarrow> CollisionGeometry" where
  "add_sub_model vs fs g = (case g of BVHModel st subs \<Rightarrow> BVHModel st (subs @ [(vs, fs)]) | _ \<Rightarrow> g)"

definition end_model :: "CollisionGeometry \<Rightarrow> CollisionGeometry" where
  "end_model g = (case g of BVHModel _ subs \<Rightarrow> BVHModel BVH_PROCESSED subs | _ \<Rightarrow> g)"

datatype CollisionObject = CollisionObject CollisionGeometry

record FCLObject =
  fcl_name :: string
  fcl_pose :: Pose
  shapes :: "CollisionObject list"
  shape_poses :: "Pose list"

section \<open>Geometry conversion\<close>

text \<open>The fixed rotation \<^verbatim>\<open>Pose(q=euler2quat(0, np.pi / 2, 0))\<close>.\<close>

definition height_axis_fixup :: Pose where
  "height_axis_fixup = Pose_of_q (euler2quat 0 (pi / 2) 0)"

text \<open>\<^verbatim>\<open>shape_poses[-1] = v\<close> on a list.\<close>

definition set_last :: "'a list \<Rightarrow> 'a \<Rightarrow> 'a list" where
  "set_last xs v = xs[length xs - 1 := v]"

text \<open>
  The type dispatch in the body of the loop of \<^verbatim>\<open>convert_physx_component\<close>: from the
  shape and the list of poses (the shape's own pose already appended), the geometry
  and the list of poses after the branch, or the \<open>TypeError\<close> of the last branch.
\<close>

definition convert_shape :: "PhysxCollisionShape \<Rightarrow> Pose list \<Rightarrow> py_error + (CollisionGeometry \<times> Pose list)" where
  "convert_shape shape sps =
     (case shape of
        PhysxCollisionShapeBox _ hs \<Rightarrow>
          Inr (Box (case hs of (hx, hy, hz) \<Rightarrow> (hx * 2, hy * 2, hz * 2)), sps)
      | PhysxCollisionShapeCapsule _ r hl \<Rightarrow>
          Inr (Capsule r (hl * 2), set_last sps (pose_mul (last sps) height_axis_fixup))
      | PhysxCollisionShapeConvexMesh _ vs sc ts \<Rightarrow>
          Inr (Convex (map (\<lambda>v. case v of (x, y, z) \<Rightarrow> case sc of (sx, sy, sz) \<Rightarrow>
                              (x * sx, y * sy, z * sz)) vs) ts, sps)
      | PhysxCollisionShapeCylinder _ r hl \<Rightarrow>
          Inr (Cylinder r (hl * 2), set_last sps (pose_mul (last sps) height_axis_fixup))
      | PhysxCollisionShapePlane _ \<Rightarrow>
          (let n = column3 (to_transformation_matrix (last sps)) 0;
               d = dot n (pose_p (last sps))
           in Inr (Halfspace n d, set_last sps Pose_identity))
      | PhysxCollisionShapeSphere _ r \<Rightarrow> Inr (Sphere r, sps)
      | PhysxCollisionShapeTriangleMesh _ vs ts \<Rightarrow>
          Inr (end_model (add_sub_model vs ts (begin_model (BVHModel BVH_EMPTY []))), sps)
      | PhysxCollisionShapeOther _ \<Rightarrow> Inl TypeError)"

text \<open>The loop over \<^verbatim>\<open>comp.collision_shapes\<close>, with the two lists it appends to.\<close>

fun convert_loop :: "PhysxCollisionShape list \<Rightarrow> CollisionObject list \<Rightarrow> Pose list \<Rightarrow>
    py_error + (CollisionObject list \<times> Pose list)" where
  "convert_loop [] shs sps = Inr (shs, sps)"
| "convert_loop (shape # rest) shs sps =
     (case convert_shape shape (sps @ [local_pose shape]) of
        Inl e \<Rightarrow> Inl e
      | Inr (c_geom, sps') \<Rightarrow> convert_loop rest (shs @ [CollisionObject c_geom]) sps')"

definition convert_physx_component :: "PhysxRigidBaseComponent \<Rightarrow> py_error + FCLObject option" where
  "convert_physx_component component =
     (case convert_loop (collision_shapes component) [] [] of
        Inl e \<Rightarrow> Inl e
      | Inr (shs, sps) \<Rightarrow>
          if length shs = 0 then Inr None
          else
            (case (if is_link component then Inr (comp_name component)
                   else convert_object_name (EntityObj (entity component))) of
               Inl e \<Rightarrow> Inl e
             | Inr nm \<Rightarrow>
                 Inr (Some \<lparr>fcl_name = nm, fcl_pose = ent_pose (entity component),
                            shapes = shs, shape_poses = sps\<rparr>)))"

text \<open>The shapes the type dispatch knows: every class but the unknown one.\<close>

definition supported_shape :: "PhysxCollisionShape \<Rightarrow> bool" where
  "supported_shape shape = (case shape of PhysxCollisionShapeOther _ \<Rightarrow> False | _ \<Rightarrow> True)"

section \<open>The planning world\<close>

text \<open>
  Modelled from the spec: the planning world and its articulated models (compiled
  code of this repository, not under \<^verbatim>\<open>src/\<close>).  After the spec's data model, the
  world is three mappings by name (articulation name to articulated model, object
  name to collision entry, object name to attached-object record); an articulated
  model holds a base pose and a joint configuration; lookups by name give the entry
  or nothing; registration stores an entry under its name.
\<close>

record ArticulatedModel =
  base_pose :: Pose
  am_qpos :: "real list"

definition set_base_pose :: "Pose \<Rightarrow> ArticulatedModel \<Rightarrow> ArticulatedModel" where
  "set_base_pose ps m = m\<lparr>base_pose := ps\<rparr>"

text \<open>\<^verbatim>\<open>set_qpos(qpos, full=True)\<close>: the full joint configuration is replaced.\<close>

definition set_qpos :: "real list \<Rightarrow> ArticulatedModel \<Rightarrow> ArticulatedModel" where
  "set_qpos qs m = m\<lparr>am_qpos := qs\<rparr>"

text \<open>The kinematic collision model of an articulated model, in the model's current
  state.\<close>

datatype FCLModel = FCLModel ArticulatedModel

definition get_fcl_model :: "ArticulatedModel \<Rightarrow> FCLModel" where
  "get_fcl_model m = FCLModel m"

record AttachedBody =
  ab_pose :: Pose
  attached_articulation :: string
  attached_link_id :: nat
  touch_links :: "string list"

record PlanningWorld =
  articulation_map :: "string \<rightharpoonup> ArticulatedModel"
  object_map :: "string \<rightharpoonup> FCLObject"
  attached_body_map :: "string \<rightharpoonup> AttachedBody"

definition get_articulation :: "PlanningWorld \<Rightarrow> string \<Rightarrow> ArticulatedModel option" where
  "get_articulation w nm = articulation_map w nm"

definition get_object :: "PlanningWorld \<Rightarrow> string \<Rightarrow> FCLObject option" where
  "get_object w nm = object_map w nm"

definition get_attached_object :: "PlanningWorld \<Rightarrow> string \<Rightarrow> AttachedBody option" where
  "get_attached_object w nm = attached_body_map w nm"

text \<open>\<^verbatim>\<open>PlanningWorld.add_object\<close> of the base class, reached through \<^verbatim>\<open>super()\<close>.\<close>

definition PlanningWorld_add_object :: "PlanningWorld \<Rightarrow> FCLObject \<Rightarrow> PlanningWorld" where
  "PlanningWorld_add_object w obj = w\<lparr>object_map := (object_map w)(fcl_name obj \<mapsto> obj)\<rparr>"

text \<open>The membership of a world: the names of its articulations, of its objects and of
  its attached objects.\<close>

definition membership :: "PlanningWorld \<Rightarrow> string set \<times> string set \<times> string set" where
  "membership w = (dom (articulation_map w), dom (object_map w), dom (attached_body_map w))"

section \<open>Adding an object\<close>

datatype add_object_arg = AddFCLObject FCLObject | AddEntity Entity

text \<open>
  \<^verbatim>\<open>SapienPlanningWorld.add_object\<close>.  The call \<^verbatim>\<open>self.add_object(fcl_obj)\<close> of the
  entity branch re-enters the method with a collision entry, which takes the
  \<^verbatim>\<open>else\<close> branch; it is written here as that branch.
\<close>

definition add_object :: "PlanningWorld \<Rightarrow> add_object_arg \<Rightarrow> py_error + PlanningWorld" where
  "add_object w obj =
     (case obj of
        AddEntity ent \<Rightarrow>
          (case find_component_by_type ent of
             None \<Rightarrow> Inl AssertionError
           | Some component \<Rightarrow>
               (case convert_physx_component component of
                  Inl e \<Rightarrow> Inl e
                | Inr None \<Rightarrow> Inr w
                | Inr (Some fcl_obj) \<Rightarrow> Inr (PlanningWorld_add_object w fcl_obj)))
      | AddFCLObject fcl_obj \<Rightarrow> Inr (PlanningWorld_add_object w fcl_obj))"

section \<open>The collision backend\<close>

text \<open>
  Modelled from the spec: the allowed-collision matrix (compiled code of this
  repository, not under \<^verbatim>\<open>src/\<close>), a mapping from a pair of names to a
  collision-allowance tag \<open>{default, always-allow, never-allow}\<close> in which absent pairs
  are unset.  The matrix is taken as its lookup \<^verbatim>\<open>get_allowed_collision\<close>, whatever
  its entries and defaults are.
\<close>

datatype AllowedCollision = NEVER | ALWAYS | DEFAULT

type_synonym AllowedCollisionMatrix = "string \<Rightarrow> string \<Rightarrow> AllowedCollision option"

definition get_allowed_collision :: "AllowedCollisionMatrix \<Rightarrow> string \<Rightarrow> string \<Rightarrow> AllowedCollision option" where
  "get_allowed_collision acm name1 name2 = acm name1 name2"

record CollisionResult =
  is_collision :: bool
  contacts :: "vec3 list"

record DistanceResult =
  min_distance :: real

record WorldCollisionResult =
  wc_res :: CollisionResult
  wc_collision_type :: string
  wc_object_name1 :: string
  wc_object_name2 :: string
  wc_link_name1 :: string
  wc_link_name2 :: string

record WorldDistanceResult =
  wd_res :: DistanceResult
  wd_min_distance :: real
  wd_distance_type :: string
  wd_object_name1 :: string
  wd_object_name2 :: string
  wd_link_name1 :: string
  wd_link_name2 :: string

text \<open>What \<^verbatim>\<open>_get_collision_obj\<close> resolves a reference to.\<close>

datatype collision_obj = IsFCLModel FCLModel | IsFCLObject FCLObject

text \<open>
  The services of the collision and kinematics backend, which the module calls and
  the spec leaves out of scope, as parameters: the pairwise primitives
  \<^verbatim>\<open>collide\<close> and \<^verbatim>\<open>distance\<close>, the queries of a kinematic collision model, the
  default-constructed \<^verbatim>\<open>WorldDistanceResult()\<close>, and the world pose of the link an
  attached body hangs on.
\<close>

record Backend =
  collide :: "FCLObject \<Rightarrow> FCLObject \<Rightarrow> CollisionResult"
  distance :: "FCLObject \<Rightarrow> FCLObject \<Rightarrow> DistanceResult"
  check_collision_with :: "FCLModel \<Rightarrow> collision_obj \<Rightarrow> AllowedCollisionMatrix \<Rightarrow> WorldCollisionResult list"
  distance_with :: "FCLModel \<Rightarrow> collision_obj \<Rightarrow> AllowedCollisionMatrix \<Rightarrow> WorldDistanceResult"
  WorldDistanceResult_default :: WorldDistanceResult
  get_attached_link_global_pose :: "PlanningWorld \<Rightarrow> AttachedBody \<Rightarrow> Pose"

text \<open>The backend calls a query makes, in order: the trace by which a theorem can say
  that a primitive ran or was skipped.\<close>

datatype backend_call =
    CallCollide FCLObject FCLObject
  | CallDistance FCLObject FCLObject
  | CallCheckCollisionWith FCLModel collision_obj
  | CallDistanceWith FCLModel collision_obj

section \<open>Query dispatch\<close>

definition get_collision_obj :: "PlanningWorld \<Rightarrow> sapien_object \<Rightarrow> py_error + collision_obj" where
  "get_collision_obj w obj =
     (case obj of
        ArticulationObj a \<Rightarrow>
          (case convert_object_name obj of
             Inl e \<Rightarrow> Inl e
           | Inr nm \<Rightarrow>
               (case get_articulation w nm of
                  Some articulation \<Rightarrow> Inr (IsFCLModel (get_fcl_model articulation))
                | None \<Rightarrow> Inl (RuntimeError (art_name a))))
      | EntityObj ent \<Rightarrow>
          (case convert_object_name obj of
             Inl e \<Rightarrow> Inl e
           | Inr nm \<Rightarrow>
               (case get_object w nm of
                  Some fcl_obj \<Rightarrow> Inr (IsFCLObject fcl_obj)
                | None \<Rightarrow> Inl (RuntimeError (ent_name ent))))
      | OtherObject nm \<Rightarrow>
          (case nm of None \<Rightarrow> Inl AttributeError | Some n \<Rightarrow> Inl (RuntimeError n)))"

text \<open>\<^verbatim>\<open>isinstance(obj, PhysxArticulation)\<close> and \<^verbatim>\<open>isinstance(obj, Entity)\<close>.\<close>

definition is_articulation :: "sapien_object \<Rightarrow> bool" where
  "is_articulation obj = (case obj of ArticulationObj _ \<Rightarrow> True | _ \<Rightarrow> False)"

definition is_entity :: "sapien_object \<Rightarrow> bool" where
  "is_entity obj = (case obj of EntityObj _ \<Rightarrow> True | _ \<Rightarrow> False)"

definition check_collision_between ::
    "Backend \<Rightarrow> PlanningWorld \<Rightarrow> sapien_object \<Rightarrow> sapien_object \<Rightarrow> AllowedCollisionMatrix \<Rightarrow>
     py_error + (WorldCollisionResult list \<times> backend_call list)" where
  "check_collision_between be w obj_A obj_B acm =
     (case get_collision_obj w obj_A of
        Inl e \<Rightarrow> Inl e
      | Inr col_obj_A \<Rightarrow>
     (case get_collision_obj w obj_B of
        Inl e \<Rightarrow> Inl e
      | Inr col_obj_B \<Rightarrow>
          if is_articulation obj_A then
            (case col_obj_A of
               IsFCLModel m \<Rightarrow>
                 Inr (check_collision_with be m col_obj_B acm, [CallCheckCollisionWith m col_obj_B])
             | IsFCLObject _ \<Rightarrow> Inl AssertionError)
          else if is_articulation obj_B then
            (case col_obj_B of
               IsFCLModel m \<Rightarrow>
                 Inr (check_collision_with be m col_obj_A acm, [CallCheckCollisionWith m col_obj_A])
             | IsFCLObject _ \<Rightarrow> Inl AssertionError)
          else if is_entity obj_B then
            (case (col_obj_A, col_obj_B) of
               (IsFCLObject a, IsFCLObject b) \<Rightarrow>
                 (let acm_type = get_allowed_collision acm (fcl_name a) (fcl_name b) in
                  if acm_type = None \<or> acm_type = Some NEVER then
                    (let result = collide be a b in
                     if is_collision result then
                       Inr ([\<lparr>wc_res = result, wc_collision_type = ''object_object'',
                              wc_object_name1 = fcl_name a, wc_object_name2 = fcl_name b,
                              wc_link_name1 = fcl_name a, wc_link_name2 = fcl_name b\<rparr>],
                            [CallCollide a b])
                     else Inr ([], [CallCollide a b]))
                  else Inr ([], []))
             | _ \<Rightarrow> Inl AssertionError)
          else Inl NotImplementedError))"

text \<open>\<^verbatim>\<open>Union[WorldDistanceResult, float]\<close>, the result of \<^verbatim>\<open>distance_between\<close>.\<close>

datatype distance_answer = DistanceOnly real | FullResult WorldDistanceResult

definition distance_between ::
    "Backend \<Rightarrow> PlanningWorld \<Rightarrow> sapien_object \<Rightarrow> sapien_object \<Rightarrow> AllowedCollisionMatrix \<Rightarrow> bool \<Rightarrow>
     py_error + (distance_answer \<times> backend_call list)" where
  "distance_between be w obj_A obj_B acm return_distance_only =
     (case get_collision_obj w obj_A of
        Inl e \<Rightarrow> Inl e
      | Inr col_obj_A \<Rightarrow>
     (case get_collision_obj w obj_B of
        Inl e \<Rightarrow> Inl e
      | Inr col_obj_B \<Rightarrow>
     (case
          (if is_articulation obj_A then
             (case col_obj_A of
                IsFCLModel m \<Rightarrow> Inr (distance_with be m col_obj_B acm, [CallDistanceWith m col_obj_B])
              | IsFCLObject _ \<Rightarrow> Inl AssertionError)
           else if is_articulation obj_B then
             (case col_obj_B of
                IsFCLModel m \<Rightarrow> Inr (distance_with be m col_obj_A acm, [CallDistanceWith m col_obj_A])
              | IsFCLObject _ \<Rightarrow> Inl AssertionError)
           else if is_entity obj_B then
             (case (col_obj_A, col_obj_B) of
                (IsFCLObject a, IsFCLObject b) \<Rightarrow>
                  (let acm_type = get_allowed_collision acm (fcl_name a) (fcl_name b) in
                   if acm_type = None \<or> acm_type = Some NEVER then
                     (let result = distance be a b in
                      Inr (\<lparr>wd_res = result, wd_min_distance = min_distance result,
                            wd_distance_type = ''object_object'',
                            wd_object_name1 = fcl_name a, wd_object_name2 = fcl_name b,
                            wd_link_name1 = fcl_name a, wd_link_name2 = fcl_name b\<rparr>,
                           [CallDistance a b]))
                   else Inr (WorldDistanceResult_default be, []))
              | _ \<Rightarrow> Inl AssertionError)
           else Inl NotImplementedError)
      of
        Inl e \<Rightarrow> Inl e
      | Inr (ret, calls) \<Rightarrow>
          Inr (if return_distance_only then DistanceOnly (wd_min_distance ret) else FullResult ret,
               calls))))"

section \<open>Synchronization\<close>

text \<open>The live scene at the time of a call: what \<^verbatim>\<open>get_all_articulations()\<close> and
  \<^verbatim>\<open>get_all_actors()\<close> enumerate.\<close>

record Scene =
  get_all_articulations :: "PhysxArticulation list"
  get_all_actors :: "Entity list"

text \<open>
  Modelled from the spec: \<^verbatim>\<open>AttachedBody.update_pose\<close> (compiled code of this
  repository, not under \<^verbatim>\<open>src/\<close>), which refreshes the world pose of the attached
  object from its attachment, leaving shape local poses untouched: the object's entry
  (the one of the same name) gets the pose of the link times the attached pose.
\<close>

definition update_pose :: "Backend \<Rightarrow> string \<Rightarrow> AttachedBody \<Rightarrow> PlanningWorld \<Rightarrow> PlanningWorld" where
  "update_pose be nm ab w =
     (case object_map w nm of
        None \<Rightarrow> w
      | Some ob \<Rightarrow>
          w\<lparr>object_map := (object_map w)(nm \<mapsto>
               ob\<lparr>fcl_pose := pose_mul (get_attached_link_global_pose be w ab) (ab_pose ab)\<rparr>)\<rparr>)"

text \<open>
  The first loop of \<^verbatim>\<open>update_from_simulation\<close>.  An exception leaves the world as the
  loop had changed it so far, so the result is the error, if any, with the world.
\<close>

fun sync_articulations :: "PhysxArticulation list \<Rightarrow> PlanningWorld \<Rightarrow> py_error option \<times> PlanningWorld" where
  "sync_articulations [] w = (None, w)"
| "sync_articulations (articulation # rest) w =
     (case convert_object_name (ArticulationObj articulation) of
        Inl e \<Rightarrow> (Some e, w)
      | Inr nm \<Rightarrow>
          (case get_articulation w nm of
             Some art \<Rightarrow>
               sync_articulations rest
                 (w\<lparr>articulation_map := (articulation_map w)(nm \<mapsto>
                      set_qpos (qpos articulation) (set_base_pose (root_pose articulation) art))\<rparr>)
           | None \<Rightarrow> (Some (RuntimeError (art_name articulation)), w)))"

text \<open>The second loop, with the warnings emitted so far.\<close>

fun sync_actors :: "Backend \<Rightarrow> bool \<Rightarrow> Entity list \<Rightarrow> PlanningWorld \<Rightarrow> py_warning list \<Rightarrow>
    py_error option \<times> PlanningWorld \<times> py_warning list" where
  "sync_actors be update_attached_object [] w warns = (None, w, warns)"
| "sync_actors be update_attached_object (ent # rest) w warns =
     (case convert_object_name (EntityObj ent) of
        Inl e \<Rightarrow> (Some e, w, warns)
      | Inr object_name \<Rightarrow>
          (case get_attached_object w object_name of
             Some attached_body \<Rightarrow>
               (let ab = (if update_attached_object
                          then attached_body\<lparr>ab_pose :=
                                 pose_mul (pose_inv (get_attached_link_global_pose be w attached_body))
                                   (ent_pose ent)\<rparr>
                          else attached_body);
                    w1 = w\<lparr>attached_body_map := (attached_body_map w)(object_name \<mapsto> ab)\<rparr>
                in sync_actors be update_attached_object rest (update_pose be object_name ab w1) warns)
           | None \<Rightarrow>
               (case get_object w object_name of
                  Some fcl_obj \<Rightarrow>
                    (case add_object w (AddFCLObject
                            \<lparr>fcl_name = object_name, fcl_pose = ent_pose ent,
                             shapes = shapes fcl_obj, shape_poses = shape_poses fcl_obj\<rparr>) of
                       Inl e \<Rightarrow> (Some e, w, warns)
                     | Inr w' \<Rightarrow> sync_actors be update_attached_object rest w' warns)
                | None \<Rightarrow>
                    (case find_component_by_type ent of
                       None \<Rightarrow> (Some AttributeError, w, warns)
                     | Some component \<Rightarrow>
                         if length (collision_shapes component) > 0
                         then sync_actors be update_attached_object rest w
                                (warns @ [UserWarning (ent_name ent)])
                         else sync_actors be update_attached_object rest w warns))))"

definition update_from_simulation :: "Backend \<Rightarrow> Scene \<Rightarrow> bool \<Rightarrow> PlanningWorld \<Rightarrow>
    py_error option \<times> PlanningWorld \<times> py_warning list" where
  "update_from_simulation be sim_scene update_attached_object w =
     (case sync_articulations (get_all_articulations sim_scene) w of
        (Some e, w') \<Rightarrow> (Some e, w', [])
      | (None, w') \<Rightarrow> sync_actors be update_attached_object (get_all_actors sim_scene) w' [])"

text \<open>The live objects of a scene: its articulations and its standalone bodies.\<close>

definition live_objects :: "Scene \<Rightarrow> sapien_object list" where
  "live_objects sc = map ArticulationObj (get_all_articulations sc) @ map EntityObj (get_all_actors sc)"

text \<open>The two calls of the first loop's body on a registered model: the base pose and
  the full joint configuration are set from the articulation.\<close>

definition refreshed :: "PhysxArticulation \<Rightarrow> ArticulatedModel \<Rightarrow> ArticulatedModel" where
  "refreshed articulation art = set_qpos (qpos articulation) (set_base_pose (root_pose articulation) art)"

text \<open>An articulation is registered when the world has a model under its unique name.\<close>

definition articulation_registered :: "PlanningWorld \<Rightarrow> PhysxArticulation \<Rightarrow> bool" where
  "articulation_registered w a = (get_articulation w (unique_name (ArticulationObj a)) \<noteq> None)"

text \<open>The live articulations the first loop refreshes: those it enumerates before the
  first one that is not registered.\<close>

definition enumerated :: "PlanningWorld \<Rightarrow> Scene \<Rightarrow> PhysxArticulation list" where
  "enumerated w sc = takeWhile (articulation_registered w) (get_all_articulations sc)"

section \<open>Vocabulary of the query properties\<close>

text \<open>An object is registered when the lookup of its kind finds an entry under its unique
  name; \<open>not_found_error\<close> is the exception \<^verbatim>\<open>_get_collision_obj\<close> raises for an object
  that is not.\<close>

definition registered :: "PlanningWorld \<Rightarrow> sapien_object \<Rightarrow> bool" where
  "registered w obj =
     (case obj of
        ArticulationObj a \<Rightarrow> get_articulation w (unique_name obj) \<noteq> None
      | EntityObj e \<Rightarrow> get_object w (unique_name obj) \<noteq> None
      | OtherObject _ \<Rightarrow> False)"

definition not_found_error :: "sapien_object \<Rightarrow> py_error" where
  "not_found_error obj =
     (case obj of
        ArticulationObj a \<Rightarrow> RuntimeError (art_name a)
      | EntityObj e \<Rightarrow> RuntimeError (ent_name e)
      | OtherObject None \<Rightarrow> AttributeError
      | OtherObject (Some n) \<Rightarrow> RuntimeError n)"

text \<open>The records the object-object branch builds, the condition under which it runs
  the pairwise primitive, and the final \<^verbatim>\<open>ret.min_distance if return_distance_only else ret\<close>.\<close>

definition object_object_collision :: "CollisionResult \<Rightarrow> FCLObject \<Rightarrow> FCLObject \<Rightarrow> WorldCollisionResult" where
  "object_object_collision result a b =
     \<lparr>wc_res = result, wc_collision_type = ''object_object'',
      wc_object_name1 = fcl_name a, wc_object_name2 = fcl_name b,
      wc_link_name1 = fcl_name a, wc_link_name2 = fcl_name b\<rparr>"

definition object_object_distance :: "DistanceResult \<Rightarrow> FCLObject \<Rightarrow> FCLObject \<Rightarrow> WorldDistanceResult" where
  "object_object_distance result a b =
     \<lparr>wd_res = result, wd_min_distance = min_distance result,
      wd_distance_type = ''object_object'',
      wd_object_name1 = fcl_name a, wd_object_name2 = fcl_name b,
      wd_link_name1 = fcl_name a, wd_link_name2 = fcl_name b\<rparr>"

definition checked_pair :: "AllowedCollisionMatrix \<Rightarrow> FCLObject \<Rightarrow> FCLObject \<Rightarrow> bool" where
  "checked_pair acm a b =
     (get_allowed_collision acm (fcl_name a) (fcl_name b) = None \<or>
      get_allowed_collision acm (fcl_name a) (fcl_name b) = Some NEVER)"

definition answer :: "bool \<Rightarrow> WorldDistanceResult \<Rightarrow> distance_answer" where
  "answer return_distance_only ret =
     (if return_distance_only then DistanceOnly (wd_min_distance ret) else FullResult ret)"

section \<open>Concrete inputs\<close>

text \<open>Small scenes and worlds on which the theorems below are instantiated.\<close>

definition example_entity :: Entity where
  "example_entity = Entity ''ball'' 7 Pose_identity None"

definition example_component :: PhysxRigidBaseComponent where
  "example_component = PhysxRigidBaseComponent ''body'' False
     [PhysxCollisionShapeSphere Pose_identity 1, PhysxCollisionShapeBox Pose_identity (1, 2, 3)]
     example_entity"

definition empty_component :: PhysxRigidBaseComponent where
  "empty_component = PhysxRigidBaseComponent ''body'' False [] example_entity"

definition shapeless_entity :: Entity where
  "shapeless_entity = Entity ''ghost'' 3 Pose_identity (Some empty_component)"

definition empty_world :: PlanningWorld where
  "empty_world = \<lparr>articulation_map = Map.empty, object_map = Map.empty,
                   attached_body_map = Map.empty\<rparr>"

text \<open>A pose whose local x-axis is the z-axis of its frame, five units along it.\<close>

definition example_plane_pose :: Pose where
  "example_plane_pose = \<lparr>pose_p = (0, 0, 5), pose_q = (- 1 / 2, 1 / 2, 1 / 2, 1 / 2)\<rparr>"

definition example_link :: PhysxRigidBaseComponent where
  "example_link = PhysxRigidBaseComponent ''base'' True [] (Entity ''base'' 1 Pose_identity None)"

definition example_articulation :: PhysxArticulation where
  "example_articulation = \<lparr>art_name = ''arm'', root = example_link, root_pose = example_plane_pose,
                            qpos = [1, 2]\<rparr>"

definition example_scene :: Scene where
  "example_scene = \<lparr>get_all_articulations = [example_articulation],
                     get_all_actors = [Entity ''box'' 2 Pose_identity (Some example_component),
                                       Entity ''arm'' 11 Pose_identity (Some example_component)]\<rparr>"

definition example_backend :: Backend where
  "example_backend =
     \<lparr>collide = (\<lambda>a b. \<lparr>is_collision = True, contacts = [(0, 0, 0)]\<rparr>),
      distance = (\<lambda>a b. \<lparr>min_distance = 0\<rparr>),
      check_collision_with = (\<lambda>m c acm. []),
      distance_with = (\<lambda>m c acm.
        \<lparr>wd_res = \<lparr>min_distance = 1\<rparr>, wd_min_distance = 1, wd_distance_type = ''self'',
         wd_object_name1 = [], wd_object_name2 = [], wd_link_name1 = [], wd_link_name2 = []\<rparr>),
      WorldDistanceResult_default =
        \<lparr>wd_res = \<lparr>min_distance = - 1\<rparr>, wd_min_distance = - 1, wd_distance_type = [],
         wd_object_name1 = [], wd_object_name2 = [], wd_link_name1 = [], wd_link_name2 = []\<rparr>,
      get_attached_link_global_pose = (\<lambda>w ab. Pose_identity)\<rparr>"

definition example_box :: FCLObject where
  "example_box = \<lparr>fcl_name = ''box_2'', fcl_pose = Pose_identity,
                   shapes = [CollisionObject (Sphere 1)], shape_poses = [Pose_identity]\<rparr>"

definition example_crate :: FCLObject where
  "example_crate = \<lparr>fcl_name = ''arm_11'', fcl_pose = Pose_identity,
                     shapes = [CollisionObject (Box (1, 1, 1))], shape_poses = [Pose_identity]\<rparr>"

definition example_world :: PlanningWorld where
  "example_world =
     \<lparr>articulation_map = [''arm_1'' \<mapsto> \<lparr>base_pose = Pose_identity, am_qpos = [0, 0]\<rparr>],
      object_map = [''box_2'' \<mapsto> example_box, ''arm_11'' \<mapsto> example_crate],
      attached_body_map = Map.empty\<rparr>"

definition unknown_body :: Entity where
  "unknown_body = Entity ''prop'' 4 Pose_identity (Some example_component)"

definition acm_never :: AllowedCollisionMatrix where
  "acm_never = (\<lambda>name1 name2. Some NEVER)"

definition acm_always :: AllowedCollisionMatrix where
  "acm_always = (\<lambda>name1 name2. Some ALWAYS)"

definition acm_unset :: AllowedCollisionMatrix where
  "acm_unset = (\<lambda>name1 name2. None)"

definition box_entity :: Entity where
  "box_entity = Entity ''box'' 2 Pose_identity (Some example_component)"

definition crate_entity :: Entity where
  "crate_entity = Entity ''arm'' 11 Pose_identity (Some example_component)"

text \<open>A scene whose first articulation is registered in \<open>example_world\<close> and whose
  second is not.\<close>

definition stray_articulation :: PhysxArticulation where
  "stray_articulation = \<lparr>art_name = ''dog'',
      root = PhysxRigidBaseComponent ''torso'' True [] (Entity ''torso'' 9 Pose_identity None),
      root_pose = Pose_identity, qpos = [3]\<rparr>"

definition mixed_scene :: Scene where
  "mixed_scene = \<lparr>get_all_articulations = [example_articulation, stray_articulation],
                   get_all_actors = []\<rparr>"

section \<open>Geometry conversion: the loop and its entries\<close>

lemma convert_shape_acc:
  "convert_shape s (sps @ [x]) =
     (case convert_shape s [x] of Inl e \<Rightarrow> Inl e | Inr (g, m) \<Rightarrow> Inr (g, sps @ m))"
  by (simp add: convert_shape_def set_last_def Let_def split: PhysxCollisionShape.splits)

lemma convert_shape_supported:
  "supported_shape s \<Longrightarrow> \<exists>g y. convert_shape s [x] = Inr (g, [y])"
  by (auto simp: convert_shape_def supported_shape_def set_last_def Let_def split: PhysxCollisionShape.splits)

lemma convert_loop_acc:
  "convert_loop ss shs sps =
     (case convert_loop ss [] [] of Inl e \<Rightarrow> Inl e | Inr (a, b) \<Rightarrow> Inr (shs @ a, sps @ b))"
proof (induction ss arbitrary: shs sps)
  case Nil
  show ?case by simp
next
  case (Cons s ss)
  show ?case
  proof (cases "convert_shape s [local_pose s]")
    case (Inl e)
    then show ?thesis by (simp add: convert_shape_acc)
  next
    case (Inr r)
    obtain g m where r: "r = (g, m)" by (cases r)
    have 1: "convert_loop (s # ss) shs sps = convert_loop ss (shs @ [CollisionObject g]) (sps @ m)"
      using Inr r by (simp add: convert_shape_acc)
    have 2: "convert_loop (s # ss) [] [] = convert_loop ss [CollisionObject g] m"
      using Inr r by simp
    show ?thesis
      unfolding 1 2
      by (subst Cons.IH, subst (2) Cons.IH) (simp split: sum.splits)
  qed
qed

lemma convert_loop_supported:
  "\<forall>s \<in> set ss. supported_shape s \<Longrightarrow>
     \<exists>a b. convert_loop ss [] [] = Inr (a, b) \<and> length a = length ss \<and> length b = length ss \<and>
       (\<forall>i < length ss. convert_loop [ss ! i] [] [] = Inr ([a ! i], [b ! i]))"
proof (induction ss)
  case Nil
  show ?case by simp
next
  case (Cons s ss)
  from Cons.prems have "supported_shape s" by simp
  from convert_shape_supported [OF this] obtain g y where
    one: "convert_shape s [local_pose s] = Inr (g, [y])" by blast
  from Cons obtain a b where
    ab: "convert_loop ss [] [] = Inr (a, b)" "length a = length ss" "length b = length ss"
        "\<forall>i < length ss. convert_loop [ss ! i] [] [] = Inr ([a ! i], [b ! i])" by auto
  have s1: "convert_loop [s] [] [] = Inr ([CollisionObject g], [y])" using one by simp
  have "convert_loop (s # ss) [] [] = convert_loop ss [CollisionObject g] [y]"
    using one by simp
  also have "\<dots> = Inr (CollisionObject g # a, y # b)"
    using convert_loop_acc [of ss "[CollisionObject g]" "[y]"] ab(1) by simp
  finally have all: "convert_loop (s # ss) [] [] = Inr (CollisionObject g # a, y # b)" .
  have "\<forall>i < length (s # ss). convert_loop [(s # ss) ! i] [] [] = Inr ([(CollisionObject g # a) ! i], [(y # b) ! i])"
  proof (intro allI impI)
    fix i assume "i < length (s # ss)"
    then show "convert_loop [(s # ss) ! i] [] [] = Inr ([(CollisionObject g # a) ! i], [(y # b) ! i])"
      using s1 ab(4) by (cases i) auto
  qed
  with all ab(2,3) show ?case by simp
qed


text \<open>
  Claim C2.  Converting a rigid-body component whose list of collision shapes is empty
  yields no entry (\<open>None\<close>) and no error.  Converting one with \<open>N \<ge> 1\<close> shapes, each of a
  class the conversion knows, yields one entry whose list of geometries and whose list of
  local poses both have length \<open>N\<close>; the pair at position \<open>i\<close> is the conversion of the
  source shape at position \<open>i\<close>, so the order of the source list is kept.
\<close>

theorem convert_physx_component_entry:
  "(collision_shapes c = [] \<longrightarrow> convert_physx_component c = Inr None) \<and>
   (collision_shapes c \<noteq> [] \<and> (\<forall>s \<in> set (collision_shapes c). supported_shape s) \<longrightarrow>
      (\<exists>obj. convert_physx_component c = Inr (Some obj) \<and>
         length (shapes obj) = length (collision_shapes c) \<and>
         length (shape_poses obj) = length (collision_shapes c) \<and>
         (\<forall>i < length (collision_shapes c).
            convert_loop [collision_shapes c ! i] [] [] = Inr ([shapes obj ! i], [shape_poses obj ! i]))))"
proof (intro conjI impI)
  assume "collision_shapes c = []"
  then show "convert_physx_component c = Inr None"
    by (simp add: convert_physx_component_def)
next
  assume h: "collision_shapes c \<noteq> [] \<and> (\<forall>s \<in> set (collision_shapes c). supported_shape s)"
  then obtain a b where
    ab: "convert_loop (collision_shapes c) [] [] = Inr (a, b)"
        "length a = length (collision_shapes c)" "length b = length (collision_shapes c)"
        "\<forall>i < length (collision_shapes c).
            convert_loop [collision_shapes c ! i] [] [] = Inr ([a ! i], [b ! i])"
    using convert_loop_supported [of "collision_shapes c"] by blast
  from h ab(2) have ne: "length a \<noteq> 0" by simp
  have "\<exists>nm. (if is_link c then Inr (comp_name c)
                   else convert_object_name (EntityObj (entity c))) = Inr nm"
    by (simp add: convert_object_name_def)
  then obtain nm where nm: "(if is_link c then Inr (comp_name c)
                   else convert_object_name (EntityObj (entity c))) = Inr nm" ..
  have "convert_physx_component c =
      Inr (Some \<lparr>fcl_name = nm, fcl_pose = ent_pose (entity c), shapes = a, shape_poses = b\<rparr>)"
    unfolding convert_physx_component_def using ab(1) ne nm by simp
  with ab(2,3,4) show "\<exists>obj. convert_physx_component c = Inr (Some obj) \<and>
         length (shapes obj) = length (collision_shapes c) \<and>
         length (shape_poses obj) = length (collision_shapes c) \<and>
         (\<forall>i < length (collision_shapes c).
            convert_loop [collision_shapes c ! i] [] [] = Inr ([shapes obj ! i], [shape_poses obj ! i]))"
    by simp
qed

theorem convert_physx_component_entry_witness:
  "collision_shapes example_component \<noteq> [] \<and>
   list_all supported_shape (collision_shapes example_component) \<and>
   (\<exists>obj. convert_physx_component example_component = Inr (Some obj) \<and>
      length (shapes obj) = 2 \<and> length (shape_poses obj) = 2)"
proof -
  have h: "collision_shapes example_component \<noteq> [] \<and>
      (\<forall>s \<in> set (collision_shapes example_component). supported_shape s)"
    by (simp add: example_component_def supported_shape_def)
  have n: "length (collision_shapes example_component) = 2"
    by (simp add: example_component_def)
  from convert_physx_component_entry [of example_component] h
  obtain obj where "convert_physx_component example_component = Inr (Some obj)"
      "length (shapes obj) = length (collision_shapes example_component)"
      "length (shape_poses obj) = length (collision_shapes example_component)"
    by blast
  with h n show ?thesis by (auto simp: list_all_iff)
qed

section \<open>Adding an entity without collision shapes\<close>

text \<open>
  Claim C10.  \<^verbatim>\<open>add_object\<close> on an entity whose rigid-body component has no collision
  shape returns without an error and leaves the planning world as it was: nothing is
  registered.  (The method has no warning to emit on this path.)
\<close>

theorem add_object_no_shapes:
  "find_component_by_type ent = Some component \<Longrightarrow> collision_shapes component = [] \<Longrightarrow>
     add_object w (AddEntity ent) = Inr w"
  by (simp add: add_object_def convert_physx_component_def)

theorem add_object_no_shapes_witness:
  "find_component_by_type shapeless_entity = Some empty_component \<and>
   collision_shapes empty_component = [] \<and>
   add_object empty_world (AddEntity shapeless_entity) = Inr empty_world"
proof -
  have 1: "find_component_by_type shapeless_entity = Some empty_component"
    by (simp add: shapeless_entity_def)
  have 2: "collision_shapes empty_component = []"
    by (simp add: empty_component_def)
  from add_object_no_shapes [OF 1 2, of empty_world] 1 2 show ?thesis by simp
qed

section \<open>Capsules and cylinders: the height axis\<close>

lemma euler2quat_y90: "euler2quat 0 (pi / 2) 0 = (sqrt 2 / 2, 0, sqrt 2 / 2, 0)"
  by (simp add: euler2quat_def Let_def cos_45 sin_45)

lemma height_axis_fixup_eq:
  "height_axis_fixup = \<lparr>pose_p = (0, 0, 0), pose_q = (sqrt 2 / 2, 0, sqrt 2 / 2, 0)\<rparr>"
  by (simp add: height_axis_fixup_def Pose_of_q_def euler2quat_y90)

lemma fixup_identity: "pose_mul Pose_identity height_axis_fixup = height_axis_fixup"
  by (simp add: height_axis_fixup_eq pose_mul_def Pose_identity_def qmul_def rotate_def
      rotation_rows_def dot_def vadd_def)

lemma fixup_z_column: "z_axis height_axis_fixup = (1, 0, 0)"
  by (simp add: height_axis_fixup_eq z_axis_def to_transformation_matrix_def rotation_rows_def
      column3_def)

lemma identity_x_column: "x_axis Pose_identity = (1, 0, 0)"
  by (simp add: Pose_identity_def x_axis_def to_transformation_matrix_def rotation_rows_def
      column3_def)

text \<open>As a map on vectors the fixed rotation sends the z direction to the x direction,
  and the x direction to the negative z direction.\<close>

lemma fixup_rotates_axes:
  "rotate (pose_q height_axis_fixup) (0, 0, 1) = (1, 0, 0) \<and>
   rotate (pose_q height_axis_fixup) (1, 0, 0) = (0, 0, - 1)"
  by (simp add: height_axis_fixup_eq rotate_def rotation_rows_def dot_def)

lemma fixup_general:
  assumes "unit_quat (pose_q lp)"
  shows "z_axis (pose_mul lp height_axis_fixup) = x_axis lp"
proof -
  obtain w x y z where q: "pose_q lp = (w, x, y, z)" by (cases "pose_q lp") auto
  obtain px py pz where p: "pose_p lp = (px, py, pz)" by (cases "pose_p lp") auto
  define c :: real where "c = sqrt 2 / 2"
  have cc: "c * c = 1 / 2" by (simp add: c_def)
  from assms q have u: "w * w + x * x + y * y + z * z = 1" by (simp add: unit_quat_def)
  have fq: "pose_q (pose_mul lp height_axis_fixup) = (w * c - y * c, x * c - z * c, w * c + y * c, z * c + x * c)"
    by (simp add: height_axis_fixup_eq pose_mul_def qmul_def q c_def)
  have a1: "2 * ((x * c - z * c) * (z * c + x * c) + (w * c - y * c) * (w * c + y * c)) = 1 - 2 * (y * y + z * z)"
  proof -
    have "2 * ((x * c - z * c) * (z * c + x * c) + (w * c - y * c) * (w * c + y * c))
        = 2 * (c * c) * (x * x - z * z + w * w - y * y)" by (simp add: algebra_simps)
    also have "\<dots> = x * x - z * z + w * w - y * y" by (simp add: cc)
    also have "\<dots> = 1 - 2 * (y * y + z * z)" using u by (simp add: algebra_simps)
    finally show ?thesis .
  qed
  have a2: "2 * ((w * c + y * c) * (z * c + x * c) - (w * c - y * c) * (x * c - z * c)) = 2 * (x * y + w * z)"
  proof -
    have "2 * ((w * c + y * c) * (z * c + x * c) - (w * c - y * c) * (x * c - z * c))
        = 2 * (c * c) * (2 * (w * z) + 2 * (x * y))" by (simp add: algebra_simps)
    also have "\<dots> = 2 * (x * y + w * z)" by (simp add: cc)
    finally show ?thesis .
  qed
  have a3: "1 - 2 * ((x * c - z * c) * (x * c - z * c) + (w * c + y * c) * (w * c + y * c)) = 2 * (x * z - w * y)"
  proof -
    have "1 - 2 * ((x * c - z * c) * (x * c - z * c) + (w * c + y * c) * (w * c + y * c))
        = 1 - 2 * (c * c) * (x * x + z * z + w * w + y * y - 2 * (x * z) + 2 * (w * y))"
      by (simp add: algebra_simps)
    also have "\<dots> = 1 - (x * x + z * z + w * w + y * y - 2 * (x * z) + 2 * (w * y))" by (simp add: cc)
    also have "\<dots> = 2 * (x * z - w * y)" using u by (simp add: algebra_simps)
    finally show ?thesis .
  qed
  show ?thesis
    using a1 a2 a3
    by (simp add: x_axis_def z_axis_def to_transformation_matrix_def rotation_rows_def column3_def
        fq q split: prod.splits)
qed

text \<open>
  Claim C1.  A capsule and a cylinder convert to a planning geometry with the source
  radius and the full length \<open>half_length * 2\<close>, and the stored local pose is the
  shape's local pose multiplied on the right by the fixed rotation
  \<^verbatim>\<open>Pose(q=euler2quat(0, pi / 2, 0))\<close>, the quarter turn about the y-axis (quaternion
  \<open>(cos (pi / 4), 0, sin (pi / 4), 0)\<close>).  A capsule whose local pose is the identity is
  stored with that pure rotation, whose local z-axis (the height axis of the planning
  geometry) is the local x-axis of the source pose (the height axis of the engine),
  \<open>(1, 0, 0)\<close>; the same holds from every source pose with a unit quaternion.  The
  statements on \<open>convert_loop\<close> are about a component with this one shape, those on
  \<open>convert_shape\<close> about the body of the loop at any position of a longer list.
\<close>

theorem capsule_cylinder_axis_fixup:
  "convert_loop [PhysxCollisionShapeCapsule lp r hl] [] [] =
     Inr ([CollisionObject (Capsule r (hl * 2))], [pose_mul lp height_axis_fixup]) \<and>
   convert_loop [PhysxCollisionShapeCylinder lp r hl] [] [] =
     Inr ([CollisionObject (Cylinder r (hl * 2))], [pose_mul lp height_axis_fixup]) \<and>
   height_axis_fixup = Pose_of_q (cos (pi / 4), 0, sin (pi / 4), 0) \<and>
   convert_loop [PhysxCollisionShapeCapsule Pose_identity r hl] [] [] =
     Inr ([CollisionObject (Capsule r (hl * 2))], [height_axis_fixup]) \<and>
   z_axis height_axis_fixup = (1, 0, 0) \<and>
   x_axis Pose_identity = (1, 0, 0) \<and>
   (unit_quat (pose_q lp) \<longrightarrow> z_axis (pose_mul lp height_axis_fixup) = x_axis lp) \<and>
   convert_shape (PhysxCollisionShapeCapsule lp r hl) (sps @ [lp]) =
     Inr (Capsule r (hl * 2), sps @ [pose_mul lp height_axis_fixup]) \<and>
   convert_shape (PhysxCollisionShapeCylinder lp r hl) (sps @ [lp]) =
     Inr (Cylinder r (hl * 2), sps @ [pose_mul lp height_axis_fixup])"
proof -
  have body: "convert_shape (PhysxCollisionShapeCapsule lp r hl) (sps @ [lp]) =
     Inr (Capsule r (hl * 2), sps @ [pose_mul lp height_axis_fixup]) \<and>
   convert_shape (PhysxCollisionShapeCylinder lp r hl) (sps @ [lp]) =
     Inr (Cylinder r (hl * 2), sps @ [pose_mul lp height_axis_fixup])"
    by (simp add: convert_shape_def set_last_def)
  have cap: "\<And>l. convert_loop [PhysxCollisionShapeCapsule l r hl] [] [] =
     Inr ([CollisionObject (Capsule r (hl * 2))], [pose_mul l height_axis_fixup])"
    by (simp add: convert_shape_def set_last_def)
  have cyl: "convert_loop [PhysxCollisionShapeCylinder lp r hl] [] [] =
     Inr ([CollisionObject (Cylinder r (hl * 2))], [pose_mul lp height_axis_fixup])"
    by (simp add: convert_shape_def set_last_def)
  have rot: "height_axis_fixup = Pose_of_q (cos (pi / 4), 0, sin (pi / 4), 0)"
    by (simp add: height_axis_fixup_eq Pose_of_q_def cos_45 sin_45)
  show ?thesis
    using cap [of lp] cap [of Pose_identity] cyl rot fixup_identity fixup_z_column
      identity_x_column fixup_general [of lp] body
    by simp
qed

theorem capsule_cylinder_axis_fixup_witness:
  "unit_quat (pose_q example_plane_pose) \<and>
   x_axis example_plane_pose = (0, 0, 1) \<and>
   z_axis (pose_mul example_plane_pose height_axis_fixup) = (0, 0, 1) \<and>
   convert_loop [PhysxCollisionShapeCapsule example_plane_pose 1 2] [] [] =
     Inr ([CollisionObject (Capsule 1 (2 * 2))], [pose_mul example_plane_pose height_axis_fixup])"
proof -
  have u: "unit_quat (pose_q example_plane_pose)"
    by (simp add: example_plane_pose_def unit_quat_def)
  have x: "x_axis example_plane_pose = (0, 0, 1)"
    by (simp add: example_plane_pose_def x_axis_def to_transformation_matrix_def
        rotation_rows_def column3_def)
  from capsule_cylinder_axis_fixup [of example_plane_pose 1 2] u
  have "z_axis (pose_mul example_plane_pose height_axis_fixup) = x_axis example_plane_pose"
    and "convert_loop [PhysxCollisionShapeCapsule example_plane_pose 1 2] [] [] =
     Inr ([CollisionObject (Capsule 1 (2 * 2))], [pose_mul example_plane_pose height_axis_fixup])"
    by blast+
  with u x show ?thesis by simp
qed

section \<open>Planes as half-spaces\<close>

lemma x_axis_unit:
  assumes "unit_quat (pose_q lp)"
  shows "dot (x_axis lp) (x_axis lp) = 1"
proof -
  obtain w x y z where q: "pose_q lp = (w, x, y, z)" by (cases "pose_q lp") auto
  from assms q have u: "w * w + x * x + y * y + z * z = 1" by (simp add: unit_quat_def)
  have e: "1 - 2 * (y * y + z * z) = w * w + x * x - y * y - z * z" using u by simp
  have "(w * w + x * x - y * y - z * z) * (w * w + x * x - y * y - z * z)
      + 2 * (x * y + w * z) * (2 * (x * y + w * z)) + 2 * (x * z - w * y) * (2 * (x * z - w * y))
      = (w * w + x * x + y * y + z * z) * (w * w + x * x + y * y + z * z)"
    by (simp add: algebra_simps)
  then have "(1 - 2 * (y * y + z * z)) * (1 - 2 * (y * y + z * z))
      + 2 * (x * y + w * z) * (2 * (x * y + w * z)) + 2 * (x * z - w * y) * (2 * (x * z - w * y)) = 1"
    unfolding e u by simp
  then show ?thesis
    by (simp add: x_axis_def to_transformation_matrix_def rotation_rows_def column3_def q dot_def
        split: prod.splits)
qed

text \<open>
  Claim C3.  A plane converts to a half-space whose normal is the x-axis unit vector of
  the shape's pose, in the frame that pose is expressed in (the first column of its
  rotation), whose signed offset is the dot product of that normal with the pose's
  translation, and whose stored local pose is the identity.  A pose whose x-axis is
  \<open>(0, 0, 1)\<close> and whose translation is \<open>d\<close> along that axis gives normal \<open>(0, 0, 1)\<close> and
  offset \<open>d\<close>.  The last conjunct is the body of the loop at any position of a longer
  list of shapes.
\<close>

theorem plane_conversion:
  "convert_loop [PhysxCollisionShapePlane lp] [] [] =
     Inr ([CollisionObject (Halfspace (x_axis lp) (dot (x_axis lp) (pose_p lp)))], [Pose_identity]) \<and>
   (unit_quat (pose_q lp) \<longrightarrow> dot (x_axis lp) (x_axis lp) = 1) \<and>
   (x_axis lp = (0, 0, 1) \<and> pose_p lp = vscale d (x_axis lp) \<longrightarrow>
      convert_loop [PhysxCollisionShapePlane lp] [] [] =
        Inr ([CollisionObject (Halfspace (0, 0, 1) d)], [Pose_identity])) \<and>
   convert_shape (PhysxCollisionShapePlane lp) (sps @ [lp]) =
     Inr (Halfspace (x_axis lp) (dot (x_axis lp) (pose_p lp)), sps @ [Pose_identity])"
proof -
  have body: "convert_shape (PhysxCollisionShapePlane lp) (sps @ [lp]) =
     Inr (Halfspace (x_axis lp) (dot (x_axis lp) (pose_p lp)), sps @ [Pose_identity])"
    by (simp add: convert_shape_def set_last_def Let_def x_axis_def)
  have 1: "convert_loop [PhysxCollisionShapePlane lp] [] [] =
     Inr ([CollisionObject (Halfspace (x_axis lp) (dot (x_axis lp) (pose_p lp)))], [Pose_identity])"
    by (simp add: convert_shape_def set_last_def Let_def x_axis_def)
  have 2: "x_axis lp = (0, 0, 1) \<and> pose_p lp = vscale d (x_axis lp) \<longrightarrow>
      dot (x_axis lp) (pose_p lp) = d"
    by (simp add: vscale_def dot_def)
  show ?thesis using 1 2 x_axis_unit [of lp] body by auto
qed

theorem plane_conversion_witness:
  "unit_quat (pose_q example_plane_pose) \<and>
   x_axis example_plane_pose = (0, 0, 1) \<and>
   pose_p example_plane_pose = vscale 5 (x_axis example_plane_pose) \<and>
   dot (x_axis example_plane_pose) (x_axis example_plane_pose) = 1 \<and>
   convert_loop [PhysxCollisionShapePlane example_plane_pose] [] [] =
     Inr ([CollisionObject (Halfspace (0, 0, 1) 5)], [Pose_identity])"
proof -
  have u: "unit_quat (pose_q example_plane_pose)"
    by (simp add: example_plane_pose_def unit_quat_def)
  have x: "x_axis example_plane_pose = (0, 0, 1)"
    by (simp add: example_plane_pose_def x_axis_def to_transformation_matrix_def
        rotation_rows_def column3_def)
  have p: "pose_p example_plane_pose = vscale 5 (x_axis example_plane_pose)"
    by (simp add: x vscale_def) (simp add: example_plane_pose_def)
  from plane_conversion [of example_plane_pose 5] u x p show ?thesis by blast
qed

section \<open>Identity resolution\<close>

lemma of_char_digit: "d < 10 \<Longrightarrow> of_char (digit_char d) = (48 + d :: nat)"
  by (simp add: digit_char_def)

lemma digit_char_inj: "d < 10 \<Longrightarrow> e < 10 \<Longrightarrow> digit_char d = digit_char e \<Longrightarrow> d = e"
proof -
  assume d: "d < 10" and e: "e < 10" and eq: "digit_char d = digit_char e"
  from eq have "(of_char (digit_char d) :: nat) = of_char (digit_char e)" by (rule arg_cong)
  then have "48 + d = 48 + e" unfolding of_char_digit [OF d] of_char_digit [OF e] .
  then show ?thesis by simp
qed

lemma digit_char_not_underscore: "d < 10 \<Longrightarrow> digit_char d \<noteq> CHR ''_''"
proof
  assume d: "d < 10" and eq: "digit_char d = CHR ''_''"
  from eq have "(of_char (digit_char d) :: nat) = of_char (CHR ''_'')" by (rule arg_cong)
  then have "48 + d = (of_char (CHR ''_'') :: nat)" unfolding of_char_digit [OF d] .
  with d show False by simp
qed

lemma digit_char_not_minus: "d < 10 \<Longrightarrow> digit_char d \<noteq> CHR ''-''"
proof
  assume d: "d < 10" and eq: "digit_char d = CHR ''-''"
  from eq have "(of_char (digit_char d) :: nat) = of_char (CHR ''-'')" by (rule arg_cong)
  then have "48 + d = (of_char (CHR ''-'') :: nat)" unfolding of_char_digit [OF d] .
  with d show False by simp
qed

lemma str_nat_chars: "c \<in> set (str_nat n) \<Longrightarrow> \<exists>d < 10. c = digit_char d"
proof (induction n rule: str_nat.induct)
  case (1 n)
  show ?case
  proof (cases "n < 10")
    case True
    with "1.prems" show ?thesis by (auto simp: str_nat.simps [of n])
  next
    case False
    with "1.prems" have "c \<in> set (str_nat (n div 10)) \<or> c = digit_char (n mod 10)"
      by (auto simp: str_nat.simps [of n])
    then show ?thesis
    proof
      assume "c \<in> set (str_nat (n div 10))"
      with "1.IH" False show ?thesis by simp
    next
      assume "c = digit_char (n mod 10)"
      moreover have "n mod 10 < 10" by simp
      ultimately show ?thesis by blast
    qed
  qed
qed

lemma str_nat_nonempty: "str_nat n \<noteq> []"
  by (subst str_nat.simps) simp

lemma str_nat_inj: "str_nat m = str_nat n \<Longrightarrow> m = n"
proof (induction m arbitrary: n rule: str_nat.induct)
  case (1 m)
  show ?case
  proof (cases "m < 10")
    case True
    note m = this
    show ?thesis
    proof (cases "n < 10")
      case True
      with m "1.prems" show ?thesis
        by (simp add: str_nat.simps [of m] str_nat.simps [of n] digit_char_inj)
    next
      case False
      with m "1.prems" have "[digit_char m] = str_nat (n div 10) @ [digit_char (n mod 10)]"
        by (simp add: str_nat.simps [of m] str_nat.simps [of n])
      then have "str_nat (n div 10) = []" by simp
      with str_nat_nonempty show ?thesis by blast
    qed
  next
    case False
    note m = this
    show ?thesis
    proof (cases "n < 10")
      case True
      with m "1.prems" have "str_nat (m div 10) @ [digit_char (m mod 10)] = [digit_char n]"
        by (simp add: str_nat.simps [of m] str_nat.simps [of n])
      then have "str_nat (m div 10) = []" by simp
      with str_nat_nonempty show ?thesis by blast
    next
      case False
      with m "1.prems" have "str_nat (m div 10) @ [digit_char (m mod 10)] =
          str_nat (n div 10) @ [digit_char (n mod 10)]"
        by (simp add: str_nat.simps [of m] str_nat.simps [of n])
      then have a: "str_nat (m div 10) = str_nat (n div 10)"
        and b: "digit_char (m mod 10) = digit_char (n mod 10)" by simp_all
      from "1.IH" [OF m a] have "m div 10 = n div 10" .
      moreover from b have "m mod 10 = n mod 10" by (simp add: digit_char_inj)
      ultimately show ?thesis by (metis div_mult_mod_eq)
    qed
  qed
qed

lemma str_int_no_underscore: "CHR ''_'' \<notin> set (str_int i)"
proof
  assume "CHR ''_'' \<in> set (str_int i)"
  then have "CHR ''_'' \<in> set (str_nat (nat (- i))) \<or> CHR ''_'' \<in> set (str_nat (nat i))"
    by (auto simp: str_int_def split: if_splits)
  then obtain d where "d < 10" "CHR ''_'' = digit_char d"
    using str_nat_chars by blast
  then show False using digit_char_not_underscore by metis
qed

lemma str_nat_no_minus: "CHR ''-'' \<notin> set (str_nat n)"
proof
  assume "CHR ''-'' \<in> set (str_nat n)"
  then obtain d where "d < 10" "CHR ''-'' = digit_char d"
    using str_nat_chars by blast
  then show False using digit_char_not_minus by metis
qed

lemma str_int_inj: "str_int i = str_int j \<Longrightarrow> i = j"
proof -
  assume e: "str_int i = str_int j"
  have hd_nat: "\<And>n. hd (str_nat n) \<noteq> CHR ''-''"
    using str_nat_no_minus str_nat_nonempty by (metis hd_in_set)
  show ?thesis
  proof (cases "i < 0")
    case True
    note i = this
    show ?thesis
    proof (cases "j < 0")
      case True
      with i e have "str_nat (nat (- i)) = str_nat (nat (- j))" by (simp add: str_int_def)
      then have "nat (- i) = nat (- j)" by (rule str_nat_inj)
      with i True show ?thesis by simp
    next
      case False
      with i e have "CHR ''-'' # str_nat (nat (- i)) = str_nat (nat j)" by (simp add: str_int_def)
      then have "hd (str_nat (nat j)) = CHR ''-''" by (metis list.sel(1))
      with hd_nat show ?thesis by blast
    qed
  next
    case False
    note i = this
    show ?thesis
    proof (cases "j < 0")
      case True
      with i e have "str_nat (nat i) = CHR ''-'' # str_nat (nat (- j))" by (simp add: str_int_def)
      then have "hd (str_nat (nat i)) = CHR ''-''" by (metis list.sel(1))
      with hd_nat show ?thesis by blast
    next
      case False
      with i e have "str_nat (nat i) = str_nat (nat j)" by (simp add: str_int_def)
      then have "nat i = nat j" by (rule str_nat_inj)
      with i False show ?thesis by simp
    qed
  qed
qed

lemma split_at_last_separator:
  assumes "xs @ c # s = ys @ c # t" and "c \<notin> set s" and "c \<notin> set t"
  shows "xs = ys \<and> s = t"
proof -
  from assms(1) have "rev (xs @ c # s) = rev (ys @ c # t)" by simp
  then have e: "rev s @ c # rev xs = rev t @ c # rev ys" by simp
  have "takeWhile (\<lambda>x. x \<noteq> c) (rev s @ c # rev xs) = rev s"
    using assms(2) by (auto simp: takeWhile_tail)
  moreover have "takeWhile (\<lambda>x. x \<noteq> c) (rev t @ c # rev ys) = rev t"
    using assms(3) by (auto simp: takeWhile_tail)
  ultimately have "rev s = rev t" using e by simp
  then have "s = t" by simp
  with assms(1) show ?thesis by simp
qed



lemma live_convert:
  "scene_id x \<noteq> None \<Longrightarrow>
     \<exists>n i. convert_object_name x = Inr (n @ CHR ''_'' # str_int i) \<and> scene_id x = Some i"
  by (cases x) (simp_all add: convert_object_name_def scene_id_def)

lemma convert_Inr_live: "convert_object_name x = Inr nm \<Longrightarrow> scene_id x \<noteq> None"
  by (cases x) (simp_all add: convert_object_name_def scene_id_def)

lemma convert_object_name_eq_scene_id:
  assumes "convert_object_name o1 = convert_object_name o2" and "scene_id o1 \<noteq> None"
  shows "scene_id o1 = scene_id o2"
proof -
  from live_convert [OF assms(2)] obtain n1 i1 where
    c1: "convert_object_name o1 = Inr (n1 @ CHR ''_'' # str_int i1)" and s1: "scene_id o1 = Some i1"
    by blast
  from assms(1) c1 have "convert_object_name o2 = Inr (n1 @ CHR ''_'' # str_int i1)" by simp
  then have "scene_id o2 \<noteq> None" by (rule convert_Inr_live)
  from live_convert [OF this] obtain n2 i2 where
    c2: "convert_object_name o2 = Inr (n2 @ CHR ''_'' # str_int i2)" and s2: "scene_id o2 = Some i2"
    by blast
  from assms(1) c1 c2 have e: "n1 @ CHR ''_'' # str_int i1 = n2 @ CHR ''_'' # str_int i2" by simp
  have "n1 = n2 \<and> str_int i1 = str_int i2"
    using e str_int_no_underscore str_int_no_underscore by (rule split_at_last_separator)
  then have "i1 = i2" using str_int_inj by blast
  with s1 s2 show ?thesis by simp
qed

lemma live_objects_scene_id: "x \<in> set (live_objects sc) \<Longrightarrow> scene_id x \<noteq> None"
  by (auto simp: live_objects_def scene_id_def)

lemma live_unique_name: "scene_id x \<noteq> None \<Longrightarrow> convert_object_name x = Inr (unique_name x)"
  by (cases x) (simp_all add: unique_name_def convert_object_name_def scene_id_def)


text \<open>
  Claim C9.  The unique name is a function of the object (its declared name and its
  per-scene id), and it is injective on the live objects of one scene: two live objects
  with different per-scene ids (the root link entity's for an articulation, its own for
  a standalone body) have different unique names, whatever their declared names; so in
  a scene whose live objects carry pairwise different per-scene ids, as the simulation
  assigns them, the unique names are pairwise different and none fails.
\<close>

theorem unique_name_injective:
  "(scene_id e1 \<noteq> None \<and> scene_id e2 \<noteq> None \<and> scene_id e1 \<noteq> scene_id e2 \<longrightarrow>
      convert_object_name e1 = Inr (unique_name e1) \<and>
      convert_object_name e2 = Inr (unique_name e2) \<and>
      unique_name e1 \<noteq> unique_name e2) \<and>
   (distinct (map scene_id (live_objects sc)) \<longrightarrow>
      distinct (map unique_name (live_objects sc)) \<and>
      (\<forall>x \<in> set (live_objects sc). convert_object_name x = Inr (unique_name x)))"
proof (intro conjI impI)
  assume h: "scene_id e1 \<noteq> None \<and> scene_id e2 \<noteq> None \<and> scene_id e1 \<noteq> scene_id e2"
  from h have c1: "convert_object_name e1 = Inr (unique_name e1)" by (simp add: live_unique_name)
  from h have c2: "convert_object_name e2 = Inr (unique_name e2)" by (simp add: live_unique_name)
  show "convert_object_name e1 = Inr (unique_name e1)" by (rule c1)
  show "convert_object_name e2 = Inr (unique_name e2)" by (rule c2)
  show "unique_name e1 \<noteq> unique_name e2"
  proof
    assume "unique_name e1 = unique_name e2"
    with c1 c2 have "convert_object_name e1 = convert_object_name e2" by simp
    moreover from h have "scene_id e1 \<noteq> None" by simp
    ultimately have "scene_id e1 = scene_id e2" by (rule convert_object_name_eq_scene_id)
    with h show False by simp
  qed
next
  assume d: "distinct (map scene_id (live_objects sc))"
  have r: "convert_object_name x = Inr (unique_name x)" if "x \<in> set (live_objects sc)" for x
    using that by (simp add: live_unique_name live_objects_scene_id)
  from r show "\<forall>x \<in> set (live_objects sc). convert_object_name x = Inr (unique_name x)" by blast
  from d have dl: "distinct (live_objects sc)" and inj: "inj_on scene_id (set (live_objects sc))"
    by (simp_all add: distinct_map)
  have "inj_on unique_name (set (live_objects sc))"
  proof (rule inj_onI)
    fix x y assume x: "x \<in> set (live_objects sc)" and y: "y \<in> set (live_objects sc)"
      and e: "unique_name x = unique_name y"
    from e r [OF x] r [OF y] have "convert_object_name x = convert_object_name y" by simp
    moreover have "scene_id x \<noteq> None" using x by (rule live_objects_scene_id)
    ultimately have "scene_id x = scene_id y" by (rule convert_object_name_eq_scene_id)
    from inj this x y show "x = y" by (rule inj_onD)
  qed
  with dl show "distinct (map unique_name (live_objects sc))" by (simp add: distinct_map)
qed


lemma example_ids_str: "str_int 1 = ''1''" "str_int 2 = ''2''" "str_int 11 = ''11''"
  by code_simp+

lemma example_names:
  "map unique_name (live_objects example_scene) = [''arm_1'', ''box_2'', ''arm_11'']"
  by (simp add: live_objects_def example_scene_def example_articulation_def example_link_def
      unique_name_def convert_object_name_def example_ids_str)

theorem unique_name_injective_witness:
  "distinct (map scene_id (live_objects example_scene)) \<and>
   distinct (map unique_name (live_objects example_scene)) \<and>
   map unique_name (live_objects example_scene) = [''arm_1'', ''box_2'', ''arm_11'']"
proof -
  have d: "distinct (map scene_id (live_objects example_scene))"
    by (simp add: live_objects_def example_scene_def example_articulation_def example_link_def
        scene_id_def)
  from unique_name_injective [of "OtherObject None" "OtherObject None" example_scene]
  have "distinct (map scene_id (live_objects example_scene)) \<longrightarrow>
      distinct (map unique_name (live_objects example_scene)) \<and>
      (\<forall>x \<in> set (live_objects example_scene). convert_object_name x = Inr (unique_name x))"
    by (rule conjunct2)
  with d have "distinct (map unique_name (live_objects example_scene))" by blast
  with d example_names show ?thesis by blast
qed

section \<open>Synchronization\<close>

lemma membership_articulation_upd:
  "articulation_map w nm = Some art \<Longrightarrow>
     membership (w\<lparr>articulation_map := (articulation_map w)(nm \<mapsto> art')\<rparr>) = membership w"
  by (auto simp: membership_def)

lemma membership_object_upd:
  "object_map w nm = Some ob \<Longrightarrow>
     membership (w\<lparr>object_map := (object_map w)(nm \<mapsto> ob')\<rparr>) = membership w"
  by (auto simp: membership_def)

lemma membership_attached_upd:
  "attached_body_map w nm = Some ab \<Longrightarrow>
     membership (w\<lparr>attached_body_map := (attached_body_map w)(nm \<mapsto> ab')\<rparr>) = membership w"
  by (auto simp: membership_def)

lemma membership_update_pose: "membership (update_pose be nm ab w) = membership w"
  by (simp add: update_pose_def membership_object_upd split: option.splits)

lemma articulation_map_update_pose: "articulation_map (update_pose be nm ab w) = articulation_map w"
  by (simp add: update_pose_def split: option.splits)

lemma sync_articulations_membership:
  "membership (snd (sync_articulations arts w)) = membership w"
proof (induction arts arbitrary: w)
  case Nil
  show ?case by simp
next
  case (Cons a arts)
  show ?case
  proof (cases "convert_object_name (ArticulationObj a)")
    case (Inl e)
    then show ?thesis by simp
  next
    case (Inr nm)
    show ?thesis
    proof (cases "get_articulation w nm")
      case None
      with Inr show ?thesis by simp
    next
      case (Some art)
      then have "articulation_map w nm = Some art" by (simp add: get_articulation_def)
      then show ?thesis using Inr Some
        by (simp add: Cons.IH membership_articulation_upd)
    qed
  qed
qed

lemma sync_actors_step_cases:
  "sync_actors be f (ent # rest) w warns =
     (case get_attached_object w (unique_name (EntityObj ent)) of
        Some attached_body \<Rightarrow>
          (let ab = (if f then attached_body\<lparr>ab_pose :=
                         pose_mul (pose_inv (get_attached_link_global_pose be w attached_body))
                           (ent_pose ent)\<rparr>
                     else attached_body);
               w1 = w\<lparr>attached_body_map := (attached_body_map w)(unique_name (EntityObj ent) \<mapsto> ab)\<rparr>
           in sync_actors be f rest (update_pose be (unique_name (EntityObj ent)) ab w1) warns)
      | None \<Rightarrow>
          (case get_object w (unique_name (EntityObj ent)) of
             Some fcl_obj \<Rightarrow>
               sync_actors be f rest
                 (w\<lparr>object_map := (object_map w)(unique_name (EntityObj ent) \<mapsto>
                      \<lparr>fcl_name = unique_name (EntityObj ent), fcl_pose = ent_pose ent,
                       shapes = shapes fcl_obj, shape_poses = shape_poses fcl_obj\<rparr>)\<rparr>) warns
           | None \<Rightarrow>
               (case find_component_by_type ent of
                  None \<Rightarrow> (Some AttributeError, w, warns)
                | Some component \<Rightarrow>
                    if collision_shapes component \<noteq> []
                    then sync_actors be f rest w (warns @ [UserWarning (ent_name ent)])
                    else sync_actors be f rest w warns)))"
  by (simp add: unique_name_def convert_object_name_def add_object_def PlanningWorld_add_object_def
      split: option.splits)

lemma sync_actors_membership:
  "membership (fst (snd (sync_actors be f ents w warns))) = membership w"
proof (induction ents arbitrary: w warns)
  case Nil
  show ?case by simp
next
  case (Cons ent rest)
  show ?case
    unfolding sync_actors_step_cases
    by (auto simp: Cons.IH Let_def membership_update_pose membership_attached_upd
        membership_object_upd get_attached_object_def get_object_def split: option.splits)
qed

lemma sync_actors_articulation_map:
  "articulation_map (fst (snd (sync_actors be f ents w warns))) = articulation_map w"
proof (induction ents arbitrary: w warns)
  case Nil
  show ?case by simp
next
  case (Cons ent rest)
  show ?case
    unfolding sync_actors_step_cases
    by (auto simp: Cons.IH Let_def articulation_map_update_pose split: option.splits)
qed

lemma update_from_simulation_membership:
  "membership (fst (snd (update_from_simulation be sc f w))) = membership w"
proof (cases "sync_articulations (get_all_articulations sc) w")
  case (Pair err w')
  have m: "membership w' = membership w"
    using sync_articulations_membership [of "get_all_articulations sc" w] Pair by simp
  show ?thesis
  proof (cases err)
    case None
    with Pair m show ?thesis
      by (simp add: update_from_simulation_def sync_actors_membership)
  next
    case (Some e)
    with Pair m show ?thesis by (simp add: update_from_simulation_def)
  qed
qed


lemma sync_articulations_step:
  "sync_articulations (a # rest) w =
     (case articulation_map w (unique_name (ArticulationObj a)) of
        None \<Rightarrow> (Some (RuntimeError (art_name a)), w)
      | Some art \<Rightarrow>
          sync_articulations rest
            (w\<lparr>articulation_map := (articulation_map w)(unique_name (ArticulationObj a) \<mapsto>
                 refreshed a art)\<rparr>))"
  by (simp add: unique_name_def convert_object_name_def get_articulation_def refreshed_def
      split: option.splits)

lemma registered_after_upd:
  "articulation_map w nm = Some art \<Longrightarrow>
     articulation_registered (w\<lparr>articulation_map := (articulation_map w)(nm \<mapsto> art')\<rparr>) b =
     articulation_registered w b"
  by (auto simp: articulation_registered_def get_articulation_def)

lemma sync_articulations_out_of_sync:
  "find (\<lambda>a. \<not> articulation_registered w a) arts = Some a \<Longrightarrow>
     fst (sync_articulations arts w) = Some (RuntimeError (art_name a))"
proof (induction arts arbitrary: w)
  case Nil
  then show ?case by simp
next
  case (Cons b rest)
  show ?case
  proof (cases "articulation_map w (unique_name (ArticulationObj b))")
    case None
    then have "\<not> articulation_registered w b"
      by (simp add: articulation_registered_def get_articulation_def)
    with Cons.prems have "a = b" by simp
    with None show ?thesis by (simp add: sync_articulations_step del: sync_articulations.simps)
  next
    case (Some art)
    then have reg: "articulation_registered w b"
      by (simp add: articulation_registered_def get_articulation_def)
    let ?w1 = "w\<lparr>articulation_map := (articulation_map w)(unique_name (ArticulationObj b) \<mapsto>
                 refreshed b art)\<rparr>"
    from Cons.prems reg have "find (\<lambda>a. \<not> articulation_registered w a) rest = Some a" by simp
    then have "find (\<lambda>a. \<not> articulation_registered ?w1 a) rest = Some a"
      by (simp add: registered_after_upd [OF Some])
    then have "fst (sync_articulations rest ?w1) = Some (RuntimeError (art_name a))"
      by (rule Cons.IH)
    with Some show ?thesis by (simp add: sync_articulations_step del: sync_articulations.simps)
  qed
qed

lemma sync_articulations_refresh:
  assumes "distinct (map (\<lambda>a. unique_name (ArticulationObj a)) arts)"
    and "\<forall>a \<in> set arts. articulation_registered w a"
  shows "fst (sync_articulations arts w) = None \<and>
     (\<forall>n. n \<notin> (\<lambda>a. unique_name (ArticulationObj a)) ` set arts \<longrightarrow>
        articulation_map (snd (sync_articulations arts w)) n = articulation_map w n) \<and>
     (\<forall>a \<in> set arts. articulation_map (snd (sync_articulations arts w)) (unique_name (ArticulationObj a)) =
        map_option (refreshed a) (articulation_map w (unique_name (ArticulationObj a))))"
  using assms
proof (induction arts arbitrary: w)
  case Nil
  show ?case by simp
next
  case (Cons b rest)
  let ?u = "\<lambda>a. unique_name (ArticulationObj a)"
  from Cons.prems(2) obtain art where art: "articulation_map w (?u b) = Some art"
    by (auto simp: articulation_registered_def get_articulation_def)
  let ?w1 = "w\<lparr>articulation_map := (articulation_map w)(?u b \<mapsto> refreshed b art)\<rparr>"
  have step: "sync_articulations (b # rest) w = sync_articulations rest ?w1"
    using art by (simp add: sync_articulations_step del: sync_articulations.simps)
  from Cons.prems(1) have d: "distinct (map ?u rest)" and nb: "?u b \<notin> ?u ` set rest" by simp_all
  from Cons.prems(2) have "\<forall>a \<in> set rest. articulation_registered ?w1 a"
    by (simp add: registered_after_upd [OF art])
  from Cons.IH [OF d this]
  have ih1: "fst (sync_articulations rest ?w1) = None"
    and ih2: "\<forall>n. n \<notin> ?u ` set rest \<longrightarrow>
        articulation_map (snd (sync_articulations rest ?w1)) n = articulation_map ?w1 n"
    and ih3: "\<forall>a \<in> set rest. articulation_map (snd (sync_articulations rest ?w1)) (?u a) =
        map_option (refreshed a) (articulation_map ?w1 (?u a))"
    by blast+
  have 1: "fst (sync_articulations (b # rest) w) = None" using step ih1 by simp
  have 2: "\<forall>n. n \<notin> ?u ` set (b # rest) \<longrightarrow>
        articulation_map (snd (sync_articulations (b # rest) w)) n = articulation_map w n"
    using step ih2 by auto
  have 3: "\<forall>a \<in> set (b # rest). articulation_map (snd (sync_articulations (b # rest) w)) (?u a) =
        map_option (refreshed a) (articulation_map w (?u a))"
  proof
    fix a assume a: "a \<in> set (b # rest)"
    show "articulation_map (snd (sync_articulations (b # rest) w)) (?u a) =
        map_option (refreshed a) (articulation_map w (?u a))"
    proof (cases "a \<in> set rest")
      case True
      with nb have "?u a \<noteq> ?u b" by (metis imageI)
      with ih3 True show ?thesis unfolding step by simp
    next
      case False
      with a have ab: "a = b" by simp
      from ih2 nb have "articulation_map (snd (sync_articulations rest ?w1)) (?u b) =
          articulation_map ?w1 (?u b)" by blast
      with art ab show ?thesis unfolding step by simp
    qed
  qed
  from 1 2 3 show ?case by blast
qed


lemma refreshed_fields: "base_pose (refreshed a m) = root_pose a \<and> am_qpos (refreshed a m) = qpos a"
  by (simp add: refreshed_def set_qpos_def set_base_pose_def)

lemma registered_after_upd_fun:
  "articulation_map w nm = Some art \<Longrightarrow>
     articulation_registered (w\<lparr>articulation_map := (articulation_map w)(nm \<mapsto> art')\<rparr>) =
     articulation_registered w"
  by (rule ext) (rule registered_after_upd)

lemma sync_articulations_prefix:
  "snd (sync_articulations arts w) =
   snd (sync_articulations (takeWhile (articulation_registered w) arts) w)"
proof (induction arts arbitrary: w)
  case Nil
  show ?case by simp
next
  case (Cons b rest)
  show ?case
  proof (cases "articulation_map w (unique_name (ArticulationObj b))")
    case None
    then have "\<not> articulation_registered w b"
      by (simp add: articulation_registered_def get_articulation_def)
    then have "takeWhile (articulation_registered w) (b # rest) = []" by simp
    moreover have "snd (sync_articulations (b # rest) w) = w"
      using None by (simp add: sync_articulations_step del: sync_articulations.simps)
    ultimately show ?thesis by simp
  next
    case (Some art)
    then have reg: "articulation_registered w b"
      by (simp add: articulation_registered_def get_articulation_def)
    let ?w1 = "w\<lparr>articulation_map := (articulation_map w)(unique_name (ArticulationObj b) \<mapsto>
                 refreshed b art)\<rparr>"
    have tw: "takeWhile (articulation_registered w) (b # rest) =
        b # takeWhile (articulation_registered w) rest" using reg by simp
    have "snd (sync_articulations (b # rest) w) = snd (sync_articulations rest ?w1)"
      using Some by (simp add: sync_articulations_step del: sync_articulations.simps)
    also have "\<dots> = snd (sync_articulations (takeWhile (articulation_registered ?w1) rest) ?w1)"
      by (rule Cons.IH)
    also have "\<dots> = snd (sync_articulations (takeWhile (articulation_registered w) rest) ?w1)"
      by (simp only: registered_after_upd_fun [OF Some])
    also have "\<dots> = snd (sync_articulations (b # takeWhile (articulation_registered w) rest) w)"
      using Some by (simp add: sync_articulations_step del: sync_articulations.simps)
    finally show ?thesis unfolding tw .
  qed
qed

lemma sync_articulations_frame:
  "object_map (snd (sync_articulations arts w)) = object_map w \<and>
   attached_body_map (snd (sync_articulations arts w)) = attached_body_map w"
proof (induction arts arbitrary: w)
  case Nil
  show ?case by simp
next
  case (Cons b rest)
  show ?case
    by (cases "articulation_map w (unique_name (ArticulationObj b))")
      (simp_all add: sync_articulations_step Cons.IH del: sync_articulations.simps)
qed

lemma update_from_simulation_raises:
  assumes "find (\<lambda>a. \<not> articulation_registered w a) (get_all_articulations sc) = Some a"
  shows "update_from_simulation be sc f w =
     (Some (RuntimeError (art_name a)), snd (sync_articulations (enumerated w sc) w), [])"
proof -
  from assms have "fst (sync_articulations (get_all_articulations sc) w) =
      Some (RuntimeError (art_name a))" by (rule sync_articulations_out_of_sync)
  then have "update_from_simulation be sc f w =
     (Some (RuntimeError (art_name a)), snd (sync_articulations (get_all_articulations sc) w), [])"
    by (cases "sync_articulations (get_all_articulations sc) w")
      (simp add: update_from_simulation_def)
  then show ?thesis
    using sync_articulations_prefix [of "get_all_articulations sc" w]
    by (simp add: enumerated_def)
qed

lemma update_from_simulation_returns:
  assumes "find (\<lambda>a. \<not> articulation_registered w a) (get_all_articulations sc) = None"
  shows "enumerated w sc = get_all_articulations sc \<and>
     update_from_simulation be sc f w =
       sync_actors be f (get_all_actors sc) (snd (sync_articulations (enumerated w sc) w)) []"
proof -
  from assms have all: "\<forall>a \<in> set (get_all_articulations sc). articulation_registered w a"
    by (simp add: find_None_iff)
  then have e: "enumerated w sc = get_all_articulations sc"
    by (simp add: enumerated_def)
  have "fst (sync_articulations (get_all_articulations sc) w) = None"
  proof (cases "fst (sync_articulations (get_all_articulations sc) w)")
    case None
    then show ?thesis .
  next
    case (Some err)
    have "\<And>arts w. \<forall>a \<in> set arts. articulation_registered w a \<Longrightarrow>
        fst (sync_articulations arts w) = None"
    proof -
      fix arts :: "PhysxArticulation list" and w :: PlanningWorld
      show "\<forall>a \<in> set arts. articulation_registered w a \<Longrightarrow> fst (sync_articulations arts w) = None"
      proof (induction arts arbitrary: w)
        case Nil
        show ?case by simp
      next
        case (Cons b rest)
        from Cons.prems obtain art where art: "articulation_map w (unique_name (ArticulationObj b)) = Some art"
          by (auto simp: articulation_registered_def get_articulation_def)
        from Cons.prems have "\<forall>a \<in> set rest. articulation_registered
            (w\<lparr>articulation_map := (articulation_map w)(unique_name (ArticulationObj b) \<mapsto>
                 refreshed b art)\<rparr>) a"
          by (simp add: registered_after_upd [OF art])
        then show ?case
          using art by (simp add: sync_articulations_step Cons.IH del: sync_articulations.simps)
      qed
    qed
    from this [OF all] show ?thesis .
  qed
  then have "update_from_simulation be sc f w =
       sync_actors be f (get_all_actors sc) (snd (sync_articulations (get_all_articulations sc) w)) []"
    by (cases "sync_articulations (get_all_articulations sc) w")
      (simp add: update_from_simulation_def)
  with e show ?thesis by simp
qed

lemma update_from_simulation_articulation_map_all:
  "articulation_map (fst (snd (update_from_simulation be sc f w))) =
   articulation_map (snd (sync_articulations (enumerated w sc) w))"
proof (cases "find (\<lambda>a. \<not> articulation_registered w a) (get_all_articulations sc)")
  case None
  from update_from_simulation_returns [OF None, of be f] show ?thesis
    by (simp add: sync_actors_articulation_map)
next
  case (Some a)
  from update_from_simulation_raises [OF Some, of be f] show ?thesis by simp
qed

lemma enumerated_registered: "\<forall>b \<in> set (enumerated w sc). articulation_registered w b"
  by (auto simp: enumerated_def dest: set_takeWhileD)


lemma enumerated_refreshed:
  assumes "distinct (map (\<lambda>b. unique_name (ArticulationObj b)) (enumerated w sc))"
  shows "(\<forall>b \<in> set (enumerated w sc).
         (\<exists>m. articulation_map w (unique_name (ArticulationObj b)) = Some m \<and>
              articulation_map (fst (snd (update_from_simulation be sc f w)))
                 (unique_name (ArticulationObj b)) = Some (refreshed b m) \<and>
              base_pose (refreshed b m) = root_pose b \<and> am_qpos (refreshed b m) = qpos b)) \<and>
     (\<forall>n. n \<notin> (\<lambda>b. unique_name (ArticulationObj b)) ` set (enumerated w sc) \<longrightarrow>
         articulation_map (fst (snd (update_from_simulation be sc f w))) n = articulation_map w n)"
proof -
  let ?u = "\<lambda>b. unique_name (ArticulationObj b)"
  let ?pre = "enumerated w sc"
  note am = update_from_simulation_articulation_map_all [of be sc f w]
  from sync_articulations_refresh [OF assms enumerated_registered]
  have frame: "\<forall>n. n \<notin> ?u ` set ?pre \<longrightarrow>
        articulation_map (snd (sync_articulations ?pre w)) n = articulation_map w n"
    and fresh: "\<forall>b \<in> set ?pre. articulation_map (snd (sync_articulations ?pre w)) (?u b) =
        map_option (refreshed b) (articulation_map w (?u b))"
    by blast+
  have 1: "\<forall>b \<in> set ?pre.
         (\<exists>m. articulation_map w (?u b) = Some m \<and>
              articulation_map (fst (snd (update_from_simulation be sc f w))) (?u b) =
                Some (refreshed b m) \<and>
              base_pose (refreshed b m) = root_pose b \<and> am_qpos (refreshed b m) = qpos b)"
  proof
    fix b assume b: "b \<in> set ?pre"
    from enumerated_registered [of w sc] b have "articulation_registered w b" by blast
    then obtain m where m: "articulation_map w (?u b) = Some m"
      by (auto simp: articulation_registered_def get_articulation_def)
    from fresh b m have "articulation_map (snd (sync_articulations ?pre w)) (?u b) =
        Some (refreshed b m)" by simp
    then have "articulation_map (fst (snd (update_from_simulation be sc f w))) (?u b) =
        Some (refreshed b m)" by (simp add: am)
    with m refreshed_fields show "\<exists>m. articulation_map w (?u b) = Some m \<and>
              articulation_map (fst (snd (update_from_simulation be sc f w))) (?u b) =
                Some (refreshed b m) \<and>
              base_pose (refreshed b m) = root_pose b \<and> am_qpos (refreshed b m) = qpos b"
      by blast
  qed
  from frame have 2: "\<forall>n. n \<notin> ?u ` set ?pre \<longrightarrow>
         articulation_map (fst (snd (update_from_simulation be sc f w))) n = articulation_map w n"
    by (simp add: am)
  from 1 2 show ?thesis by blast
qed

text \<open>
  Claim C4.  Synchronization enumerates the live articulations in order; each iteration
  of the loop either finds the registered model under the articulation's unique name and
  sets its base pose and full joint configuration from the articulation, or raises the
  out-of-sync \<open>RuntimeError\<close> naming the articulation (last conjunct).  So the first live
  articulation with no registered model makes the call raise that error for it, and the
  world the raising call leaves is the one in which the articulations enumerated before
  it have been refreshed and nothing else has changed.  Every articulation enumerated
  with a registered model (their unique names being pairwise different) has, after the
  call, the articulation's root pose as base pose and the articulation's joint positions
  as joint configuration, whether the call raises later or returns; the models under
  other names are as before.  When every live articulation is registered, all of them
  are enumerated and the call goes on to the second loop.
\<close>

theorem update_from_simulation_articulations:
  "(find (\<lambda>a. \<not> articulation_registered w a) (get_all_articulations sc) = Some a \<longrightarrow>
      fst (update_from_simulation be sc f w) = Some (RuntimeError (art_name a))) \<and>
   ((\<forall>b \<in> set (get_all_articulations sc). articulation_registered w b) \<and>
    distinct (map (\<lambda>b. unique_name (ArticulationObj b)) (get_all_articulations sc)) \<longrightarrow>
      (\<forall>b \<in> set (get_all_articulations sc).
         (\<exists>m. articulation_map w (unique_name (ArticulationObj b)) = Some m \<and>
              articulation_map (fst (snd (update_from_simulation be sc f w)))
                 (unique_name (ArticulationObj b)) = Some (refreshed b m) \<and>
              base_pose (refreshed b m) = root_pose b \<and> am_qpos (refreshed b m) = qpos b))) \<and>
   (find (\<lambda>a. \<not> articulation_registered w a) (get_all_articulations sc) = Some a \<longrightarrow>
      update_from_simulation be sc f w =
        (Some (RuntimeError (art_name a)), snd (sync_articulations (enumerated w sc) w), []) \<and>
      object_map (fst (snd (update_from_simulation be sc f w))) = object_map w \<and>
      attached_body_map (fst (snd (update_from_simulation be sc f w))) = attached_body_map w) \<and>
   (find (\<lambda>a. \<not> articulation_registered w a) (get_all_articulations sc) = None \<longrightarrow>
      enumerated w sc = get_all_articulations sc \<and>
      update_from_simulation be sc f w =
        sync_actors be f (get_all_actors sc) (snd (sync_articulations (enumerated w sc) w)) []) \<and>
   (distinct (map (\<lambda>b. unique_name (ArticulationObj b)) (enumerated w sc)) \<longrightarrow>
      (\<forall>b \<in> set (enumerated w sc).
         (\<exists>m. articulation_map w (unique_name (ArticulationObj b)) = Some m \<and>
              articulation_map (fst (snd (update_from_simulation be sc f w)))
                 (unique_name (ArticulationObj b)) = Some (refreshed b m) \<and>
              base_pose (refreshed b m) = root_pose b \<and> am_qpos (refreshed b m) = qpos b)) \<and>
      (\<forall>n. n \<notin> (\<lambda>b. unique_name (ArticulationObj b)) ` set (enumerated w sc) \<longrightarrow>
         articulation_map (fst (snd (update_from_simulation be sc f w))) n = articulation_map w n)) \<and>
   sync_articulations (a # rest) w =
     (case articulation_map w (unique_name (ArticulationObj a)) of
        None \<Rightarrow> (Some (RuntimeError (art_name a)), w)
      | Some art \<Rightarrow>
          sync_articulations rest
            (w\<lparr>articulation_map := (articulation_map w)(unique_name (ArticulationObj a) \<mapsto>
                 refreshed a art)\<rparr>))"
proof -
  let ?arts = "get_all_articulations sc"
  let ?u = "\<lambda>b. unique_name (ArticulationObj b)"
  have c1: "find (\<lambda>a. \<not> articulation_registered w a) ?arts = Some a \<longrightarrow>
      fst (update_from_simulation be sc f w) = Some (RuntimeError (art_name a))"
    by (simp add: update_from_simulation_raises)
  have c3: "find (\<lambda>a. \<not> articulation_registered w a) ?arts = Some a \<longrightarrow>
      update_from_simulation be sc f w =
        (Some (RuntimeError (art_name a)), snd (sync_articulations (enumerated w sc) w), []) \<and>
      object_map (fst (snd (update_from_simulation be sc f w))) = object_map w \<and>
      attached_body_map (fst (snd (update_from_simulation be sc f w))) = attached_body_map w"
    by (simp add: update_from_simulation_raises sync_articulations_frame)
  have c4: "find (\<lambda>a. \<not> articulation_registered w a) ?arts = None \<longrightarrow>
      enumerated w sc = ?arts \<and>
      update_from_simulation be sc f w =
        sync_actors be f (get_all_actors sc) (snd (sync_articulations (enumerated w sc) w)) []"
    using update_from_simulation_returns [of w sc be f] by blast
  have c5: "distinct (map ?u (enumerated w sc)) \<longrightarrow>
      (\<forall>b \<in> set (enumerated w sc).
         (\<exists>m. articulation_map w (?u b) = Some m \<and>
              articulation_map (fst (snd (update_from_simulation be sc f w))) (?u b) =
                Some (refreshed b m) \<and>
              base_pose (refreshed b m) = root_pose b \<and> am_qpos (refreshed b m) = qpos b)) \<and>
      (\<forall>n. n \<notin> ?u ` set (enumerated w sc) \<longrightarrow>
         articulation_map (fst (snd (update_from_simulation be sc f w))) n = articulation_map w n)"
    using enumerated_refreshed [of w sc be f] by blast
  have c2: "(\<forall>b \<in> set ?arts. articulation_registered w b) \<and> distinct (map ?u ?arts) \<longrightarrow>
      (\<forall>b \<in> set ?arts.
         (\<exists>m. articulation_map w (?u b) = Some m \<and>
              articulation_map (fst (snd (update_from_simulation be sc f w))) (?u b) =
                Some (refreshed b m) \<and>
              base_pose (refreshed b m) = root_pose b \<and> am_qpos (refreshed b m) = qpos b))"
  proof
    assume h: "(\<forall>b \<in> set ?arts. articulation_registered w b) \<and> distinct (map ?u ?arts)"
    then have e: "enumerated w sc = ?arts" by (simp add: enumerated_def)
    from h c5 show "\<forall>b \<in> set ?arts.
         (\<exists>m. articulation_map w (?u b) = Some m \<and>
              articulation_map (fst (snd (update_from_simulation be sc f w))) (?u b) =
                Some (refreshed b m) \<and>
              base_pose (refreshed b m) = root_pose b \<and> am_qpos (refreshed b m) = qpos b)"
      unfolding e by blast
  qed
  note c6 = sync_articulations_step [of a rest w]
  from c1 c2 c3 c4 c5 c6 show ?thesis by blast
qed

lemma example_articulation_name: "unique_name (ArticulationObj example_articulation) = ''arm_1''"
  by (simp add: unique_name_def convert_object_name_def example_articulation_def example_link_def
      example_ids_str)

lemma example_ids_str3: "str_int 9 = ''9''"
  by code_simp

lemma stray_articulation_name: "unique_name (ArticulationObj stray_articulation) = ''dog_9''"
  by (simp add: unique_name_def convert_object_name_def stray_articulation_def example_ids_str3)

theorem update_from_simulation_articulations_witness:
  "find (\<lambda>a. \<not> articulation_registered empty_world a) (get_all_articulations example_scene) =
     Some example_articulation \<and>
   fst (update_from_simulation example_backend example_scene True empty_world) =
     Some (RuntimeError ''arm'') \<and>
   list_all (articulation_registered example_world) (get_all_articulations example_scene) \<and>
   distinct (map (\<lambda>b. unique_name (ArticulationObj b)) (get_all_articulations example_scene)) \<and>
   articulation_map (fst (snd (update_from_simulation example_backend example_scene True example_world)))
     ''arm_1'' = Some \<lparr>base_pose = example_plane_pose, am_qpos = [1, 2]\<rparr> \<and>
   find (\<lambda>a. \<not> articulation_registered example_world a) (get_all_articulations mixed_scene) =
     Some stray_articulation \<and>
   enumerated example_world mixed_scene = [example_articulation] \<and>
   fst (update_from_simulation example_backend mixed_scene True example_world) =
     Some (RuntimeError ''dog'') \<and>
   articulation_map (fst (snd (update_from_simulation example_backend mixed_scene True example_world)))
     ''arm_1'' = Some \<lparr>base_pose = example_plane_pose, am_qpos = [1, 2]\<rparr> \<and>
   articulation_map example_world ''arm_1'' = Some \<lparr>base_pose = Pose_identity, am_qpos = [0, 0]\<rparr>"
proof -
  have arts: "get_all_articulations example_scene = [example_articulation]"
    by (simp add: example_scene_def)
  have f: "find (\<lambda>a. \<not> articulation_registered empty_world a) (get_all_articulations example_scene) =
     Some example_articulation"
    by (simp add: arts articulation_registered_def get_articulation_def empty_world_def)
  have reg: "articulation_registered example_world example_articulation"
    by (simp add: articulation_registered_def get_articulation_def example_articulation_name
        example_world_def)
  have nreg: "\<not> articulation_registered example_world stray_articulation"
    by (simp add: articulation_registered_def get_articulation_def stray_articulation_name
        example_world_def)
  have h: "(\<forall>b \<in> set (get_all_articulations example_scene). articulation_registered example_world b) \<and>
    distinct (map (\<lambda>b. unique_name (ArticulationObj b)) (get_all_articulations example_scene))"
    by (simp add: arts reg)
  have m: "articulation_map example_world ''arm_1'' = Some \<lparr>base_pose = Pose_identity, am_qpos = [0, 0]\<rparr>"
    by (simp add: example_world_def)
  have 3: "refreshed example_articulation \<lparr>base_pose = Pose_identity, am_qpos = [0, 0]\<rparr> =
      \<lparr>base_pose = example_plane_pose, am_qpos = [1, 2]\<rparr>"
    by (simp add: refreshed_def set_qpos_def set_base_pose_def example_articulation_def)
  have 4: "art_name example_articulation = ''arm''" by (simp add: example_articulation_def)
  have 5: "art_name stray_articulation = ''dog''" by (simp add: stray_articulation_def)
  note t1 = update_from_simulation_articulations
    [of empty_world example_scene example_articulation example_backend True "[]"]
  note t2 = update_from_simulation_articulations
    [of example_world example_scene example_articulation example_backend True "[]"]
  note t3 = update_from_simulation_articulations
    [of example_world mixed_scene stray_articulation example_backend True "[]"]
  from t1 f have 1: "fst (update_from_simulation example_backend example_scene True empty_world) =
     Some (RuntimeError (art_name example_articulation))" by blast
  from t2 h have "\<forall>b \<in> set (get_all_articulations example_scene).
         (\<exists>m. articulation_map example_world (unique_name (ArticulationObj b)) = Some m \<and>
              articulation_map (fst (snd (update_from_simulation example_backend example_scene True example_world)))
                 (unique_name (ArticulationObj b)) = Some (refreshed b m) \<and>
              base_pose (refreshed b m) = root_pose b \<and> am_qpos (refreshed b m) = qpos b)"
    by blast
  then have 2: "articulation_map (fst (snd (update_from_simulation example_backend example_scene True example_world)))
     ''arm_1'' = Some (refreshed example_articulation \<lparr>base_pose = Pose_identity, am_qpos = [0, 0]\<rparr>)"
    using m by (simp add: arts example_articulation_name)
  have marts: "get_all_articulations mixed_scene = [example_articulation, stray_articulation]"
    by (simp add: mixed_scene_def)
  have mf: "find (\<lambda>a. \<not> articulation_registered example_world a) (get_all_articulations mixed_scene) =
     Some stray_articulation"
    by (simp add: marts reg nreg)
  have en: "enumerated example_world mixed_scene = [example_articulation]"
    by (simp add: enumerated_def marts reg nreg)
  have d: "distinct (map (\<lambda>b. unique_name (ArticulationObj b)) (enumerated example_world mixed_scene))"
    by (simp add: en)
  from t3 mf have 6: "fst (update_from_simulation example_backend mixed_scene True example_world) =
     Some (RuntimeError (art_name stray_articulation))" by blast
  from t3 d have "\<forall>b \<in> set (enumerated example_world mixed_scene).
         (\<exists>m. articulation_map example_world (unique_name (ArticulationObj b)) = Some m \<and>
              articulation_map (fst (snd (update_from_simulation example_backend mixed_scene True example_world)))
                 (unique_name (ArticulationObj b)) = Some (refreshed b m) \<and>
              base_pose (refreshed b m) = root_pose b \<and> am_qpos (refreshed b m) = qpos b)"
    by blast
  then have 7: "articulation_map (fst (snd (update_from_simulation example_backend mixed_scene True example_world)))
     ''arm_1'' = Some (refreshed example_articulation \<lparr>base_pose = Pose_identity, am_qpos = [0, 0]\<rparr>)"
    using m by (simp add: en example_articulation_name)
  from f 1 2 3 4 5 6 7 h mf en m show ?thesis by (simp add: arts reg)
qed

text \<open>
  Claim C5.  Synchronization never changes the membership of the planning world: the
  names of the articulations, of the objects and of the attached objects are the same
  after the call as before, whether it returns or raises.  A live standalone body that
  is neither attached nor registered and has at least one collision shape adds one
  warning naming it, leaves the world as it is, and the loop goes on.
\<close>

theorem update_from_simulation_never_registers:
  "membership (fst (snd (update_from_simulation be sc f w))) = membership w \<and>
   (get_attached_object w (unique_name (EntityObj ent)) = None \<and>
    get_object w (unique_name (EntityObj ent)) = None \<and>
    find_component_by_type ent = Some component \<and> collision_shapes component \<noteq> [] \<longrightarrow>
      sync_actors be f (ent # rest) w warns =
        sync_actors be f rest w (warns @ [UserWarning (ent_name ent)]) \<and>
      update_from_simulation be \<lparr>get_all_articulations = [], get_all_actors = [ent]\<rparr> f w =
        (None, w, [UserWarning (ent_name ent)]))"
proof (intro conjI impI)
  show "membership (fst (snd (update_from_simulation be sc f w))) = membership w"
    by (rule update_from_simulation_membership)
next
  assume h: "get_attached_object w (unique_name (EntityObj ent)) = None \<and>
    get_object w (unique_name (EntityObj ent)) = None \<and>
    find_component_by_type ent = Some component \<and> collision_shapes component \<noteq> []"
  then have step: "\<And>r ws. sync_actors be f (ent # r) w ws =
        sync_actors be f r w (ws @ [UserWarning (ent_name ent)])"
    by (simp add: sync_actors_step_cases del: sync_actors.simps)
  show "sync_actors be f (ent # rest) w warns =
        sync_actors be f rest w (warns @ [UserWarning (ent_name ent)])" by (rule step)
  show "update_from_simulation be \<lparr>get_all_articulations = [], get_all_actors = [ent]\<rparr> f w =
        (None, w, [UserWarning (ent_name ent)])"
    by (simp add: update_from_simulation_def step del: sync_actors.simps(2))
qed

lemma example_ids_str2: "str_int 4 = ''4''"
  by code_simp

theorem update_from_simulation_never_registers_witness:
  "get_attached_object example_world (unique_name (EntityObj unknown_body)) = None \<and>
   get_object example_world (unique_name (EntityObj unknown_body)) = None \<and>
   find_component_by_type unknown_body = Some example_component \<and>
   collision_shapes example_component \<noteq> [] \<and>
   update_from_simulation example_backend
     \<lparr>get_all_articulations = [], get_all_actors = [unknown_body]\<rparr> True example_world =
     (None, example_world, [UserWarning ''prop''])"
proof -
  have n: "unique_name (EntityObj unknown_body) = ''prop_4''"
    by (simp add: unique_name_def convert_object_name_def unknown_body_def example_ids_str2)
  have h: "get_attached_object example_world (unique_name (EntityObj unknown_body)) = None \<and>
    get_object example_world (unique_name (EntityObj unknown_body)) = None \<and>
    find_component_by_type unknown_body = Some example_component \<and>
    collision_shapes example_component \<noteq> []"
    unfolding n
    by (simp add: get_attached_object_def get_object_def example_world_def)
       (simp add: unknown_body_def example_component_def)
  have e: "ent_name unknown_body = ''prop''" by (simp add: unknown_body_def)
  from update_from_simulation_never_registers
    [of example_backend "\<lparr>get_all_articulations = [], get_all_actors = [unknown_body]\<rparr>" True
      example_world unknown_body example_component "[]" "[]"] h
  have "update_from_simulation example_backend
     \<lparr>get_all_articulations = [], get_all_actors = [unknown_body]\<rparr> True example_world =
     (None, example_world, [UserWarning (ent_name unknown_body)])" by blast
  with h e show ?thesis by simp
qed

section \<open>Query dispatch between two standalone objects\<close>

lemma get_collision_obj_entity:
  "get_object w (unique_name (EntityObj e)) = Some a \<Longrightarrow>
     get_collision_obj w (EntityObj e) = Inr (IsFCLObject a)"
  by (simp add: get_collision_obj_def unique_name_def convert_object_name_def)

lemma check_collision_between_objects:
  assumes "get_object w (unique_name (EntityObj ea)) = Some a"
    and "get_object w (unique_name (EntityObj eb)) = Some b"
  shows "check_collision_between be w (EntityObj ea) (EntityObj eb) acm =
     Inr (if checked_pair acm a b
          then (if is_collision (collide be a b)
                then [object_object_collision (collide be a b) a b] else [],
                [CallCollide a b])
          else ([], []))"
  by (simp add: check_collision_between_def get_collision_obj_entity [OF assms(1)]
      get_collision_obj_entity [OF assms(2)] is_articulation_def is_entity_def checked_pair_def
      object_object_collision_def Let_def)

lemma distance_between_objects:
  assumes "get_object w (unique_name (EntityObj ea)) = Some a"
    and "get_object w (unique_name (EntityObj eb)) = Some b"
  shows "distance_between be w (EntityObj ea) (EntityObj eb) acm rdo =
     Inr (if checked_pair acm a b
          then (answer rdo (object_object_distance (distance be a b) a b), [CallDistance a b])
          else (answer rdo (WorldDistanceResult_default be), []))"
  by (simp add: distance_between_def get_collision_obj_entity [OF assms(1)]
      get_collision_obj_entity [OF assms(2)] is_articulation_def is_entity_def checked_pair_def
      object_object_distance_def answer_def Let_def)

lemma example_object_names:
  "unique_name (EntityObj box_entity) = ''box_2''"
  "unique_name (EntityObj crate_entity) = ''arm_11''"
  by (simp_all add: unique_name_def convert_object_name_def box_entity_def crate_entity_def
      example_ids_str)

lemma example_objects_registered:
  "get_object example_world (unique_name (EntityObj box_entity)) = Some example_box"
  "get_object example_world (unique_name (EntityObj crate_entity)) = Some example_crate"
  unfolding example_object_names by (simp_all add: get_object_def example_world_def)

text \<open>
  Claim C6.  When both arguments are standalone objects with registered entries \<open>a\<close> and
  \<open>b\<close>, the collision query and the distance query run the pairwise primitive exactly
  when the matrix entry for the two entry names is unset or never-allow.  The collision
  query then returns one record tagged \<open>object_object\<close> with both entry names if the
  primitive reports a collision and the empty list if not; the distance query returns the
  record with the computed minimum distance (or that distance alone).  Otherwise the
  collision query returns the empty list and the distance query the default result,
  without a call of the primitive.
\<close>

theorem object_object_dispatch:
  "get_object w (unique_name (EntityObj ea)) = Some a \<and>
   get_object w (unique_name (EntityObj eb)) = Some b \<longrightarrow>
     check_collision_between be w (EntityObj ea) (EntityObj eb) acm =
       Inr (if checked_pair acm a b
            then (if is_collision (collide be a b)
                  then [object_object_collision (collide be a b) a b] else [],
                  [CallCollide a b])
            else ([], [])) \<and>
     distance_between be w (EntityObj ea) (EntityObj eb) acm return_distance_only =
       Inr (if checked_pair acm a b
            then (answer return_distance_only (object_object_distance (distance be a b) a b),
                  [CallDistance a b])
            else (answer return_distance_only (WorldDistanceResult_default be), [])) \<and>
     (\<exists>res calls. check_collision_between be w (EntityObj ea) (EntityObj eb) acm = Inr (res, calls) \<and>
        (CallCollide a b \<in> set calls) = checked_pair acm a b) \<and>
     (\<exists>res calls. distance_between be w (EntityObj ea) (EntityObj eb) acm return_distance_only =
          Inr (res, calls) \<and>
        (CallDistance a b \<in> set calls) = checked_pair acm a b)"
proof
  assume h: "get_object w (unique_name (EntityObj ea)) = Some a \<and>
   get_object w (unique_name (EntityObj eb)) = Some b"
  then have a: "get_object w (unique_name (EntityObj ea)) = Some a"
    and b: "get_object w (unique_name (EntityObj eb)) = Some b" by simp_all
  note c = check_collision_between_objects [OF a b, of be acm]
  note d = distance_between_objects [OF a b, of be acm return_distance_only]
  have 3: "\<exists>res calls. check_collision_between be w (EntityObj ea) (EntityObj eb) acm = Inr (res, calls) \<and>
        (CallCollide a b \<in> set calls) = checked_pair acm a b"
    unfolding c by (cases "checked_pair acm a b") simp_all
  have 4: "\<exists>res calls. distance_between be w (EntityObj ea) (EntityObj eb) acm return_distance_only =
          Inr (res, calls) \<and>
        (CallDistance a b \<in> set calls) = checked_pair acm a b"
    unfolding d by (cases "checked_pair acm a b") simp_all
  from c d 3 4 show "check_collision_between be w (EntityObj ea) (EntityObj eb) acm =
       Inr (if checked_pair acm a b
            then (if is_collision (collide be a b)
                  then [object_object_collision (collide be a b) a b] else [],
                  [CallCollide a b])
            else ([], [])) \<and>
     distance_between be w (EntityObj ea) (EntityObj eb) acm return_distance_only =
       Inr (if checked_pair acm a b
            then (answer return_distance_only (object_object_distance (distance be a b) a b),
                  [CallDistance a b])
            else (answer return_distance_only (WorldDistanceResult_default be), [])) \<and>
     (\<exists>res calls. check_collision_between be w (EntityObj ea) (EntityObj eb) acm = Inr (res, calls) \<and>
        (CallCollide a b \<in> set calls) = checked_pair acm a b) \<and>
     (\<exists>res calls. distance_between be w (EntityObj ea) (EntityObj eb) acm return_distance_only =
          Inr (res, calls) \<and>
        (CallDistance a b \<in> set calls) = checked_pair acm a b)"
    by blast
qed

theorem object_object_dispatch_witness:
  "get_object example_world (unique_name (EntityObj box_entity)) = Some example_box \<and>
   get_object example_world (unique_name (EntityObj crate_entity)) = Some example_crate \<and>
   checked_pair acm_unset example_box example_crate \<and>
   check_collision_between example_backend example_world (EntityObj box_entity)
       (EntityObj crate_entity) acm_unset =
     Inr ([object_object_collision \<lparr>is_collision = True, contacts = [(0, 0, 0)]\<rparr>
             example_box example_crate],
          [CallCollide example_box example_crate]) \<and>
   distance_between example_backend example_world (EntityObj box_entity)
       (EntityObj crate_entity) acm_unset True =
     Inr (DistanceOnly 0, [CallDistance example_box example_crate])"
proof -
  have h: "get_object example_world (unique_name (EntityObj box_entity)) = Some example_box \<and>
   get_object example_world (unique_name (EntityObj crate_entity)) = Some example_crate"
    by (simp add: example_objects_registered)
  have c: "checked_pair acm_unset example_box example_crate"
    by (simp add: checked_pair_def acm_unset_def get_allowed_collision_def)
  have col: "collide example_backend example_box example_crate =
      \<lparr>is_collision = True, contacts = [(0, 0, 0)]\<rparr>"
    by (simp add: example_backend_def)
  have dist: "answer True (object_object_distance (distance example_backend example_box example_crate)
      example_box example_crate) = DistanceOnly 0"
    by (simp add: answer_def object_object_distance_def example_backend_def)
  from object_object_dispatch [of example_world box_entity example_box crate_entity example_crate
      example_backend acm_unset True] h
  have "check_collision_between example_backend example_world (EntityObj box_entity)
       (EntityObj crate_entity) acm_unset =
       Inr (if checked_pair acm_unset example_box example_crate
            then (if is_collision (collide example_backend example_box example_crate)
                  then [object_object_collision (collide example_backend example_box example_crate)
                          example_box example_crate] else [],
                  [CallCollide example_box example_crate])
            else ([], []))"
    and "distance_between example_backend example_world (EntityObj box_entity)
       (EntityObj crate_entity) acm_unset True =
       Inr (if checked_pair acm_unset example_box example_crate
            then (answer True (object_object_distance
                    (distance example_backend example_box example_crate) example_box example_crate),
                  [CallDistance example_box example_crate])
            else (answer True (WorldDistanceResult_default example_backend), []))"
    by blast+
  with h c col dist show ?thesis by simp
qed

text \<open>
  Claim C7, as stated, fails: for a pair marked never-allow the primitive runs and the
  collision it finds is reported.
\<close>

theorem never_allow_counterexample:
  "get_object example_world (unique_name (EntityObj box_entity)) = Some example_box \<and>
   get_object example_world (unique_name (EntityObj crate_entity)) = Some example_crate \<and>
   get_allowed_collision acm_never (fcl_name example_box) (fcl_name example_crate) = Some NEVER \<and>
   get_allowed_collision acm_never (fcl_name example_crate) (fcl_name example_box) = Some NEVER \<and>
   is_collision (collide example_backend example_box example_crate) \<and>
   check_collision_between example_backend example_world (EntityObj box_entity)
       (EntityObj crate_entity) acm_never =
     Inr ([object_object_collision \<lparr>is_collision = True, contacts = [(0, 0, 0)]\<rparr>
             example_box example_crate],
          [CallCollide example_box example_crate]) \<and>
   check_collision_between example_backend example_world (EntityObj box_entity)
       (EntityObj crate_entity) acm_never \<noteq> Inr ([], [CallCollide example_box example_crate]) \<and>
   check_collision_between example_backend example_world (EntityObj box_entity)
       (EntityObj crate_entity) acm_never \<noteq> Inr ([], [])"
proof -
  have c: "checked_pair acm_never example_box example_crate"
    by (simp add: checked_pair_def acm_never_def get_allowed_collision_def)
  have col: "collide example_backend example_box example_crate =
      \<lparr>is_collision = True, contacts = [(0, 0, 0)]\<rparr>"
    by (simp add: example_backend_def)
  have r: "check_collision_between example_backend example_world (EntityObj box_entity)
       (EntityObj crate_entity) acm_never =
     Inr ([object_object_collision \<lparr>is_collision = True, contacts = [(0, 0, 0)]\<rparr>
             example_box example_crate],
          [CallCollide example_box example_crate])"
    by (simp add: check_collision_between_objects [OF example_objects_registered] c col)
  show ?thesis
    unfolding r
    by (simp add: example_objects_registered acm_never_def get_allowed_collision_def col)
qed

text \<open>
  Claim C7, amended.  For two registered standalone objects whose matrix entry is
  always-allow (or default), a collision query reports none, the empty list, without
  running the primitive, also where the primitive would report a collision; for a pair
  marked never-allow the primitive runs and a collision it finds is reported.
\<close>

theorem acm_gating:
  "get_object w (unique_name (EntityObj ea)) = Some a \<and>
   get_object w (unique_name (EntityObj eb)) = Some b \<longrightarrow>
     (get_allowed_collision acm (fcl_name a) (fcl_name b) = Some NEVER \<and>
      is_collision (collide be a b) \<longrightarrow>
        check_collision_between be w (EntityObj ea) (EntityObj eb) acm =
          Inr ([object_object_collision (collide be a b) a b], [CallCollide a b])) \<and>
     (get_allowed_collision acm (fcl_name a) (fcl_name b) = Some ALWAYS \<or>
      get_allowed_collision acm (fcl_name a) (fcl_name b) = Some DEFAULT \<longrightarrow>
        check_collision_between be w (EntityObj ea) (EntityObj eb) acm = Inr ([], []))"
proof
  assume h: "get_object w (unique_name (EntityObj ea)) = Some a \<and>
   get_object w (unique_name (EntityObj eb)) = Some b"
  then have a: "get_object w (unique_name (EntityObj ea)) = Some a"
    and b: "get_object w (unique_name (EntityObj eb)) = Some b" by simp_all
  note c = check_collision_between_objects [OF a b, of be acm]
  show "(get_allowed_collision acm (fcl_name a) (fcl_name b) = Some NEVER \<and>
      is_collision (collide be a b) \<longrightarrow>
        check_collision_between be w (EntityObj ea) (EntityObj eb) acm =
          Inr ([object_object_collision (collide be a b) a b], [CallCollide a b])) \<and>
     (get_allowed_collision acm (fcl_name a) (fcl_name b) = Some ALWAYS \<or>
      get_allowed_collision acm (fcl_name a) (fcl_name b) = Some DEFAULT \<longrightarrow>
        check_collision_between be w (EntityObj ea) (EntityObj eb) acm = Inr ([], []))"
    unfolding c by (auto simp: checked_pair_def)
qed

theorem acm_gating_witness:
  "get_object example_world (unique_name (EntityObj box_entity)) = Some example_box \<and>
   get_object example_world (unique_name (EntityObj crate_entity)) = Some example_crate \<and>
   get_allowed_collision acm_always (fcl_name example_box) (fcl_name example_crate) = Some ALWAYS \<and>
   is_collision (collide example_backend example_box example_crate) \<and>
   check_collision_between example_backend example_world (EntityObj box_entity)
       (EntityObj crate_entity) acm_always = Inr ([], []) \<and>
   get_allowed_collision acm_never (fcl_name example_box) (fcl_name example_crate) = Some NEVER \<and>
   check_collision_between example_backend example_world (EntityObj box_entity)
       (EntityObj crate_entity) acm_never =
     Inr ([object_object_collision (collide example_backend example_box example_crate)
             example_box example_crate],
          [CallCollide example_box example_crate])"
proof -
  have h: "get_object example_world (unique_name (EntityObj box_entity)) = Some example_box \<and>
   get_object example_world (unique_name (EntityObj crate_entity)) = Some example_crate"
    by (simp add: example_objects_registered)
  have al: "get_allowed_collision acm_always (fcl_name example_box) (fcl_name example_crate) = Some ALWAYS"
    by (simp add: acm_always_def get_allowed_collision_def)
  have nv: "get_allowed_collision acm_never (fcl_name example_box) (fcl_name example_crate) = Some NEVER"
    by (simp add: acm_never_def get_allowed_collision_def)
  have col: "is_collision (collide example_backend example_box example_crate)"
    by (simp add: example_backend_def)
  from acm_gating [of example_world box_entity example_box crate_entity example_crate
      acm_always example_backend] h al
  have 1: "check_collision_between example_backend example_world (EntityObj box_entity)
       (EntityObj crate_entity) acm_always = Inr ([], [])" by blast
  from acm_gating [of example_world box_entity example_box crate_entity example_crate
      acm_never example_backend] h nv col
  have 2: "check_collision_between example_backend example_world (EntityObj box_entity)
       (EntityObj crate_entity) acm_never =
     Inr ([object_object_collision (collide example_backend example_box example_crate)
             example_box example_crate],
          [CallCollide example_box example_crate])" by blast
  from h al nv col 1 2 show ?thesis by blast
qed

section \<open>Resolution of unregistered objects\<close>

lemma get_collision_obj_unregistered:
  "\<not> registered w obj \<Longrightarrow> get_collision_obj w obj = Inl (not_found_error obj)"
  by (cases obj)
    (auto simp: registered_def get_collision_obj_def not_found_error_def unique_name_def
      convert_object_name_def split: option.splits)

lemma get_collision_obj_registered:
  "registered w obj \<Longrightarrow> \<exists>c. get_collision_obj w obj = Inr c"
  by (cases obj)
    (auto simp: registered_def get_collision_obj_def unique_name_def convert_object_name_def
      split: option.splits)

lemma check_collision_between_first_error:
  "get_collision_obj w obj_A = Inl e \<Longrightarrow> check_collision_between be w obj_A obj_B acm = Inl e"
  by (simp add: check_collision_between_def)

lemma check_collision_between_second_error:
  "get_collision_obj w obj_B = Inl e \<Longrightarrow>
     check_collision_between be w obj_A obj_B acm =
       (case get_collision_obj w obj_A of Inl e' \<Rightarrow> Inl e' | Inr _ \<Rightarrow> Inl e)"
  by (simp add: check_collision_between_def split: sum.splits)

lemma distance_between_first_error:
  "get_collision_obj w obj_A = Inl e \<Longrightarrow> distance_between be w obj_A obj_B acm rdo = Inl e"
  by (simp add: distance_between_def)

lemma distance_between_second_error:
  "get_collision_obj w obj_B = Inl e \<Longrightarrow>
     distance_between be w obj_A obj_B acm rdo =
       (case get_collision_obj w obj_A of Inl e' \<Rightarrow> Inl e' | Inr _ \<Rightarrow> Inl e)"
  by (simp add: distance_between_def split: sum.splits)

text \<open>
  Claim C8.  Resolving an object that is not registered fails: with the not-found
  \<open>RuntimeError\<close> naming it when it is an articulation or a standalone body.  So a
  collision query and a distance query raise when either argument is not registered,
  with that object's error when it is the first argument or the other one resolves;
  neither returns a result.
\<close>

theorem unregistered_query_raises:
  "\<not> registered w obj \<longrightarrow>
     get_collision_obj w obj = Inl (not_found_error obj) \<and>
     check_collision_between be w obj other acm = Inl (not_found_error obj) \<and>
     distance_between be w obj other acm return_distance_only = Inl (not_found_error obj) \<and>
     isl (check_collision_between be w other obj acm) \<and>
     isl (distance_between be w other obj acm return_distance_only) \<and>
     (registered w other \<longrightarrow>
        check_collision_between be w other obj acm = Inl (not_found_error obj) \<and>
        distance_between be w other obj acm return_distance_only = Inl (not_found_error obj)) \<and>
     (scene_id obj \<noteq> None \<longrightarrow> (\<exists>n. not_found_error obj = RuntimeError n))"
proof
  assume "\<not> registered w obj"
  then have g: "get_collision_obj w obj = Inl (not_found_error obj)"
    by (rule get_collision_obj_unregistered)
  have 1: "check_collision_between be w obj other acm = Inl (not_found_error obj)"
    using g by (rule check_collision_between_first_error)
  have 2: "distance_between be w obj other acm return_distance_only = Inl (not_found_error obj)"
    using g by (rule distance_between_first_error)
  have 3: "isl (check_collision_between be w other obj acm)"
    by (simp add: check_collision_between_second_error [OF g] split: sum.splits)
  have 4: "isl (distance_between be w other obj acm return_distance_only)"
    by (simp add: distance_between_second_error [OF g] split: sum.splits)
  have 5: "registered w other \<longrightarrow>
        check_collision_between be w other obj acm = Inl (not_found_error obj) \<and>
        distance_between be w other obj acm return_distance_only = Inl (not_found_error obj)"
  proof
    assume "registered w other"
    then obtain c where "get_collision_obj w other = Inr c"
      using get_collision_obj_registered by blast
    then show "check_collision_between be w other obj acm = Inl (not_found_error obj) \<and>
        distance_between be w other obj acm return_distance_only = Inl (not_found_error obj)"
      by (simp add: check_collision_between_second_error [OF g]
          distance_between_second_error [OF g])
  qed
  have 6: "scene_id obj \<noteq> None \<longrightarrow> (\<exists>n. not_found_error obj = RuntimeError n)"
    by (cases obj) (simp_all add: scene_id_def not_found_error_def)
  from g 1 2 3 4 5 6
  show "get_collision_obj w obj = Inl (not_found_error obj) \<and>
     check_collision_between be w obj other acm = Inl (not_found_error obj) \<and>
     distance_between be w obj other acm return_distance_only = Inl (not_found_error obj) \<and>
     isl (check_collision_between be w other obj acm) \<and>
     isl (distance_between be w other obj acm return_distance_only) \<and>
     (registered w other \<longrightarrow>
        check_collision_between be w other obj acm = Inl (not_found_error obj) \<and>
        distance_between be w other obj acm return_distance_only = Inl (not_found_error obj)) \<and>
     (scene_id obj \<noteq> None \<longrightarrow> (\<exists>n. not_found_error obj = RuntimeError n))"
    by blast
qed

theorem unregistered_query_raises_witness:
  "\<not> registered example_world (EntityObj unknown_body) \<and>
   registered example_world (EntityObj box_entity) \<and>
   get_collision_obj example_world (EntityObj unknown_body) = Inl (RuntimeError ''prop'') \<and>
   check_collision_between example_backend example_world (EntityObj unknown_body)
     (EntityObj box_entity) acm_unset = Inl (RuntimeError ''prop'') \<and>
   check_collision_between example_backend example_world (EntityObj box_entity)
     (EntityObj unknown_body) acm_unset = Inl (RuntimeError ''prop'') \<and>
   distance_between example_backend example_world (EntityObj unknown_body)
     (EntityObj box_entity) acm_unset True = Inl (RuntimeError ''prop'') \<and>
   distance_between example_backend example_world (EntityObj box_entity)
     (EntityObj unknown_body) acm_unset True = Inl (RuntimeError ''prop'')"
proof -
  have n: "unique_name (EntityObj unknown_body) = ''prop_4''"
    by (simp add: unique_name_def convert_object_name_def unknown_body_def example_ids_str2)
  have u: "\<not> registered example_world (EntityObj unknown_body)"
    by (simp add: registered_def n get_object_def example_world_def)
  have r: "registered example_world (EntityObj box_entity)"
    by (simp add: registered_def example_objects_registered)
  have e: "not_found_error (EntityObj unknown_body) = RuntimeError ''prop''"
    by (simp add: not_found_error_def unknown_body_def)
  from unregistered_query_raises [of example_world "EntityObj unknown_body" example_backend
      "EntityObj box_entity" acm_unset True] u r
  have "get_collision_obj example_world (EntityObj unknown_body) =
        Inl (not_found_error (EntityObj unknown_body))"
    and "check_collision_between example_backend example_world (EntityObj unknown_body)
        (EntityObj box_entity) acm_unset = Inl (not_found_error (EntityObj unknown_body))"
    and "check_collision_between example_backend example_world (EntityObj box_entity)
        (EntityObj unknown_body) acm_unset = Inl (not_found_error (EntityObj unknown_body))"
    and "distance_between example_backend example_world (EntityObj unknown_body)
        (EntityObj box_entity) acm_unset True = Inl (not_found_error (EntityObj unknown_body))"
    and "distance_between example_backend example_world (EntityObj box_entity)
        (EntityObj unknown_body) acm_unset True = Inl (not_found_error (EntityObj unknown_body))"
    by blast+
  with u r show ?thesis unfolding e by blast
qed

end
